(* ===== verification/Prelude.thy ===== *)
theory Prelude
  imports Main "HOL-Library.Sublist"
begin

text \<open>
  Shared vocabulary of the development: the named collections that the component
  theories fill, the type names of the model, and generic lemmas on lists, strings and
  options that several components use.  Python's \<open>str\<close> is a sequence of code
  points; the model reads an Isabelle \<open>char\<close> as the code point \<open>of_char c\<close>, so
  the strings of the model are the Python strings over U+0000 .. U+00FF (Latin-1).
\<close>

named_theorems py_simps "evaluation rules for the models of Python builtins"
named_theorems cal_simps "evaluation rules for the calendar model"

type_synonym pystr = string

text \<open>Python's \<open>needle in haystack\<close> for strings is the contiguous-substring test,
  \<open>sublist\<close> of HOL-Library; these are the equations that evaluate it.\<close>

lemmas sublist_eval [py_simps] =
  sublist_Nil_right sublist_Cons_right Cons_prefix_Cons Nil_prefix prefix_Nil

lemma sublist_map_iff:
  "sublist p (map f s) \<longleftrightarrow> (\<exists>a w b. s = a @ w @ b \<and> map f w = p)"
proof
  assume "sublist p (map f s)"
  then obtain ps ss where eq: "map f s = ps @ p @ ss"
    by (auto simp: sublist_def)
  then obtain a r where "s = a @ r" and r: "map f r = p @ ss"
    by (metis map_eq_append_conv)
  moreover from r obtain w b where "r = w @ b" "map f w = p"
    by (metis map_eq_append_conv)
  ultimately show "\<exists>a w b. s = a @ w @ b \<and> map f w = p"
    by blast
next
  assume "\<exists>a w b. s = a @ w @ b \<and> map f w = p"
  then obtain a w b where "s = a @ w @ b" "map f w = p"
    by blast
  then show "sublist p (map f s)"
    by (simp add: sublist_def) blast
qed

lemma sublist_appendI_mid [intro]: "sublist w (a @ w @ b)"
  by (auto simp: sublist_def)

text \<open>The last character of a string, as Python's \<open>$\<close> anchor inspects it.\<close>

lemma last_butlast_iff:
  "(s \<noteq> [] \<and> last s = x \<and> P (butlast s)) \<longleftrightarrow> (\<exists>t. s = t @ [x] \<and> P t)"
  by (cases s rule: rev_cases) auto

end
