(* ===== verification/Py_Str.thy ===== *)
theory Py_Str
  imports Prelude
begin

text \<open>
  The Python string builtins the program calls, on code points U+0000 .. U+00FF:
  \<open>str.lower\<close> (used by the intent router and by \<open>parse_date\<close>) and the character
  classes \<open>\w\<close>, \<open>\d\<close> and \<open>[a-zA-Z]\<close> of the module \<open>re\<close> for \<open>str\<close> patterns
  (used by the two validators).  The tables follow CPython's Unicode database restricted
  to Latin-1: \<open>\w\<close> is \<open>str.isalnum()\<close> or \<open>_\<close>, \<open>\d\<close> is the decimal digits,
  \<open>lower\<close> maps A-Z and U+00C0 .. U+00DE except U+00D7 to the code point 32 above.
\<close>

definition py_lower_char :: "char \<Rightarrow> char" where
  "py_lower_char c =
     (let n = of_char c :: nat in
      if (65 \<le> n \<and> n \<le> 90) \<or> (192 \<le> n \<and> n \<le> 222 \<and> n \<noteq> 215)
      then char_of (n + 32) else c)"

definition py_lower :: "pystr \<Rightarrow> pystr" where
  "py_lower s = map py_lower_char s"

definition is_py_digit :: "char \<Rightarrow> bool" where
  "is_py_digit c = (let n = of_char c :: nat in 48 \<le> n \<and> n \<le> 57)"

definition is_py_word :: "char \<Rightarrow> bool" where
  "is_py_word c =
     (let n = of_char c :: nat in
        (48 \<le> n \<and> n \<le> 57) \<or> (65 \<le> n \<and> n \<le> 90) \<or> n = 95 \<or> (97 \<le> n \<and> n \<le> 122)
      \<or> n \<in> {170, 178, 179, 181, 185, 186, 188, 189, 190}
      \<or> (192 \<le> n \<and> n \<le> 255 \<and> n \<noteq> 215 \<and> n \<noteq> 247))"

definition is_ascii_alpha :: "char \<Rightarrow> bool" where
  "is_ascii_alpha c = (let n = of_char c :: nat in (65 \<le> n \<and> n \<le> 90) \<or> (97 \<le> n \<and> n \<le> 122))"

text \<open>\<open>str.isspace()\<close> on one character and \<open>str.strip()\<close> without arguments.\<close>

definition py_isspace :: "char \<Rightarrow> bool" where
  "py_isspace c = ((of_char c :: nat) \<in> {9, 10, 11, 12, 13, 28, 29, 30, 31, 32, 133, 160})"

definition py_strip :: "pystr \<Rightarrow> pystr" where
  "py_strip s = rev (dropWhile py_isspace (rev (dropWhile py_isspace s)))"

lemmas py_char_defs [py_simps] =
  py_lower_char_def is_py_digit_def is_py_word_def is_ascii_alpha_def py_isspace_def py_strip_def

text \<open>Evaluation of \<open>char_of\<close> on numerals, for the lowercase conversion of
  concrete strings.\<close>

lemmas char_of_eval [py_simps] = char_of_def bit_Suc_0_iff

lemma py_lower_Nil [simp]: "py_lower [] = []"
  and py_lower_Cons [simp]: "py_lower (c # s) = py_lower_char c # py_lower s"
  and py_lower_append [simp]: "py_lower (s @ t) = py_lower s @ py_lower t"
  by (simp_all add: py_lower_def)

lemma length_py_lower [simp]: "length (py_lower s) = length s"
  by (simp add: py_lower_def)

lemma py_lower_char_idem [simp]: "py_lower_char (py_lower_char c) = py_lower_char c"
proof (cases "let n = of_char c :: nat in (65 \<le> n \<and> n \<le> 90) \<or> (192 \<le> n \<and> n \<le> 222 \<and> n \<noteq> 215)")
  case True
  then have "of_char (char_of (of_char c + 32 :: nat)) = (of_char c + 32 :: nat)"
    by (auto simp: Let_def)
  with True show ?thesis
    by (auto simp: py_lower_char_def Let_def)
next
  case False
  then show ?thesis
    by (auto simp: py_lower_char_def Let_def)
qed

lemma py_lower_idem [simp]: "py_lower (py_lower s) = py_lower s"
  by (induction s) simp_all

text \<open>Lowercasing keeps the class of a character for \<open>\w\<close> and \<open>\d\<close>.\<close>

lemma is_py_digit_lower [simp]: "is_py_digit (py_lower_char c) = is_py_digit c"
proof -
  have "of_char c < (256::nat)" by (rule nat_of_char_less_256)
  then show ?thesis
    by (auto simp: py_lower_char_def is_py_digit_def Let_def)
qed

lemma digit_is_word: "is_py_digit c \<Longrightarrow> is_py_word c"
  by (simp add: is_py_digit_def is_py_word_def Let_def)

text \<open>\<open>not s.strip()\<close>: the string is empty or all white space.\<close>

lemma py_strip_Nil_iff: "py_strip s = [] \<longleftrightarrow> list_all py_isspace s"
proof -
  have "rev (dropWhile py_isspace (rev t)) = [] \<longleftrightarrow> list_all py_isspace t" for t
    by (induction t rule: rev_induct) auto
  moreover have "list_all py_isspace (dropWhile py_isspace s) \<longleftrightarrow> list_all py_isspace s"
    by (induction s) auto
  ultimately show ?thesis
    by (simp add: py_strip_def)
qed

end
