(* ===== verification/Router.thy ===== *)
theory Router
  imports Py_Str
begin

text \<open>
  The intent router, \<open>src/qachat.py\<close> line 67: the condition of the branch that
  renders the conversational form instead of relaying the input to the chat model.
\<close>

datatype intent = Form_path | Chat_path

definition route :: "pystr \<Rightarrow> intent" where
  "route input =
     (if sublist ''call me'' (py_lower input) \<or> sublist ''book an appointment'' (py_lower input)
      then Form_path else Chat_path)"

lemma route_Form_sublist:
  "route s = Form_path \<longleftrightarrow>
     sublist ''call me'' (py_lower s) \<or> sublist ''book an appointment'' (py_lower s)"
  by (simp add: route_def)

text \<open>C14: the router selects the form exactly for the inputs that contain a
  substring whose lowercase form is \<open>call me\<close> or \<open>book an appointment\<close>; every
  other input goes to the chat path.\<close>

theorem route_form_iff:
  "route s = Form_path \<longleftrightarrow>
     (\<exists>a w b. s = a @ w @ b \<and> (py_lower w = ''call me'' \<or> py_lower w = ''book an appointment''))"
  unfolding route_Form_sublist py_lower_def sublist_map_iff by (auto simp only: conj_disj_distribL ex_disj_distrib)

end
