(* ===== verification/Regex.thy ===== *)
theory Regex
  imports Py_Str
begin

text \<open>
  The fragment of Python's \<open>re\<close> module that the validators of \<open>src/qachat.py\<close>
  (lines 44-49) use: literals, character classes, sequence and bounded or unbounded
  greedy repetition (\<open>?\<close>, \<open>+\<close>, \<open>{m,n}\<close>, \<open>{m,}\<close>), in the shape of the parse tree
  that \<open>sre_parse\<close> builds (\<open>LITERAL\<close>, \<open>IN\<close>, \<open>MAX_REPEAT\<close>).  For a
  match/no-match question a backtracking matcher such as \<open>sre\<close> answers yes exactly
  when the string is in the language of the pattern, so the reference semantics is
  \<open>lang\<close>; \<open>rmatch\<close> is an executable matcher by Brzozowski derivatives, proved
  to decide \<open>lang\<close>.  \<open>re_match_full\<close> models \<open>re.match("^P$", s)\<close> including
  Python's rule that \<open>$\<close> also matches just before a newline that ends the string.
\<close>

datatype cls_item =
    Cls_char char
  | Cls_range char char
  | Cls_word
  | Cls_digit

datatype rx =
    Fail
  | Eps
  | Lit char
  | In "cls_item list"
  | Alt rx rx
  | Cat rx rx
  | Repeat nat "nat option" rx

fun cls_item_match :: "cls_item \<Rightarrow> char \<Rightarrow> bool" where
  "cls_item_match (Cls_char d) c = (c = d)"
| "cls_item_match (Cls_range lo hi) c = (of_char lo \<le> (of_char c :: nat) \<and> of_char c \<le> (of_char hi :: nat))"
| "cls_item_match Cls_word c = is_py_word c"
| "cls_item_match Cls_digit c = is_py_digit c"

definition in_class :: "cls_item list \<Rightarrow> char \<Rightarrow> bool" where
  "in_class cls c = list_ex (\<lambda>it. cls_item_match it c) cls"

text \<open>The upper bound of a repetition: \<open>None\<close> is \<open>MAXREPEAT\<close> (no bound).\<close>

fun le_bound :: "nat \<Rightarrow> nat option \<Rightarrow> bool" where
  "le_bound k None = True"
| "le_bound k (Some n) = (k \<le> n)"

fun dec_bound :: "nat option \<Rightarrow> nat option" where
  "dec_bound None = None"
| "dec_bound (Some n) = Some (n - 1)"

subsection \<open>Reference semantics\<close>

definition conc :: "string set \<Rightarrow> string set \<Rightarrow> string set" where
  "conc A B = {u @ v | u v. u \<in> A \<and> v \<in> B}"

definition reps :: "string set \<Rightarrow> nat \<Rightarrow> nat option \<Rightarrow> string set" where
  "reps A m n = {concat ws | ws. set ws \<subseteq> A \<and> m \<le> length ws \<and> le_bound (length ws) n}"

primrec lang :: "rx \<Rightarrow> string set" where
  "lang Fail = {}"
| "lang Eps = {[]}"
| "lang (Lit c) = {[c]}"
| "lang (In cls) = {[c] | c. in_class cls c}"
| "lang (Alt r s) = lang r \<union> lang s"
| "lang (Cat r s) = conc (lang r) (lang s)"
| "lang (Repeat m n r) = reps (lang r) m n"

subsection \<open>The derivative matcher\<close>

primrec nullable :: "rx \<Rightarrow> bool" where
  "nullable Fail = False"
| "nullable Eps = True"
| "nullable (Lit c) = False"
| "nullable (In cls) = False"
| "nullable (Alt r s) = (nullable r \<or> nullable s)"
| "nullable (Cat r s) = (nullable r \<and> nullable s)"
| "nullable (Repeat m n r) = ((m = 0 \<or> nullable r) \<and> le_bound m n)"

primrec deriv :: "char \<Rightarrow> rx \<Rightarrow> rx" where
  "deriv c Fail = Fail"
| "deriv c Eps = Fail"
| "deriv c (Lit d) = (if c = d then Eps else Fail)"
| "deriv c (In cls) = (if in_class cls c then Eps else Fail)"
| "deriv c (Alt r s) = Alt (deriv c r) (deriv c s)"
| "deriv c (Cat r s) =
     (if nullable r then Alt (Cat (deriv c r) s) (deriv c s) else Cat (deriv c r) s)"
| "deriv c (Repeat m n r) =
     (if n = Some 0 then Fail else Cat (deriv c r) (Repeat (m - 1) (dec_bound n) r))"

primrec derivs :: "string \<Rightarrow> rx \<Rightarrow> rx" where
  "derivs [] r = r"
| "derivs (c # s) r = derivs s (deriv c r)"

definition rmatch :: "rx \<Rightarrow> string \<Rightarrow> bool" where
  "rmatch r s = nullable (derivs s r)"

definition re_match_full :: "rx \<Rightarrow> pystr \<Rightarrow> bool" where
  "re_match_full r s =
     (rmatch r s \<or> (s \<noteq> [] \<and> last s = CHR 0x0A \<and> rmatch r (butlast s)))"

subsection \<open>Repetition\<close>

lemma le_bound_mono: "le_bound k n \<Longrightarrow> j \<le> k \<Longrightarrow> le_bound j n"
  by (cases n) auto

lemma le_bound_Suc: "le_bound (Suc k) n \<longleftrightarrow> n \<noteq> Some 0 \<and> le_bound k (dec_bound n)"
  by (cases n) auto

lemma Nil_in_reps: "[] \<in> reps A m n \<longleftrightarrow> (m = 0 \<or> [] \<in> A) \<and> le_bound m n"
proof
  assume "[] \<in> reps A m n"
  then obtain ws where ws: "concat ws = []" "set ws \<subseteq> A" "m \<le> length ws" "le_bound (length ws) n"
    by (auto simp: reps_def)
  then have "m = 0 \<or> [] \<in> A"
    by (cases ws) auto
  with ws show "(m = 0 \<or> [] \<in> A) \<and> le_bound m n"
    by (auto intro: le_bound_mono)
next
  assume "(m = 0 \<or> [] \<in> A) \<and> le_bound m n"
  then have "concat (replicate m []) = [] \<and> set (replicate m []) \<subseteq> A
      \<and> m \<le> length (replicate m ([] :: string)) \<and> le_bound (length (replicate m ([] :: string))) n"
    by auto
  then show "[] \<in> reps A m n"
    unfolding reps_def by (metis (mono_tags, lifting) mem_Collect_eq)
qed

text \<open>The first character of a repeated word comes from the first non-empty
  repetition; the empty repetitions before it move behind the rest, so the count of
  repetitions drops by exactly one.\<close>

lemma Cons_in_reps:
  "c # w \<in> reps A m n \<longleftrightarrow>
     n \<noteq> Some 0 \<and> (\<exists>u v. w = u @ v \<and> c # u \<in> A \<and> v \<in> reps A (m - 1) (dec_bound n))"
proof
  assume "c # w \<in> reps A m n"
  then obtain ws where ws: "c # w = concat ws" "set ws \<subseteq> A" "m \<le> length ws"
      "le_bound (length ws) n"
    by (auto simp: reps_def)
  then have "\<exists>x \<in> set ws. x \<noteq> []"
    by (metis concat_eq_Nil_conv list.distinct(1))
  then obtain ys x zs where split: "ws = ys @ x # zs" "x \<noteq> []" "\<forall>y \<in> set ys. y = []"
    by (auto dest!: split_list_first_prop)
  then have cy: "concat ys = []"
    by simp
  with ws(1) split obtain u where x: "x = c # u" and w: "w = u @ concat zs"
    by (cases x) auto
  let ?vs = "ys @ zs"
  have "concat ?vs = concat zs"
    using cy by simp
  moreover have "set ?vs \<subseteq> A" "m - 1 \<le> length ?vs" "le_bound (length ?vs) (dec_bound n)"
      "n \<noteq> Some 0"
    using ws(2-4) split le_bound_Suc [of "length ?vs" n] by auto
  ultimately have "concat zs \<in> reps A (m - 1) (dec_bound n)" "n \<noteq> Some 0"
    unfolding reps_def by (metis (mono_tags, lifting) mem_Collect_eq)+
  moreover have "c # u \<in> A"
    using ws(2) split x by auto
  ultimately show "n \<noteq> Some 0 \<and> (\<exists>u v. w = u @ v \<and> c # u \<in> A \<and> v \<in> reps A (m - 1) (dec_bound n))"
    using w by blast
next
  assume "n \<noteq> Some 0 \<and> (\<exists>u v. w = u @ v \<and> c # u \<in> A \<and> v \<in> reps A (m - 1) (dec_bound n))"
  then obtain u zs where n: "n \<noteq> Some 0" and w: "w = u @ concat zs" and u: "c # u \<in> A"
    and zs: "set zs \<subseteq> A" "m - 1 \<le> length zs" "le_bound (length zs) (dec_bound n)"
    by (auto simp: reps_def)
  let ?ws = "(c # u) # zs"
  have "c # w = concat ?ws" "set ?ws \<subseteq> A" "m \<le> length ?ws" "le_bound (length ?ws) n"
    using n w u zs le_bound_Suc [of "length zs" n] by auto
  then show "c # w \<in> reps A m n"
    unfolding reps_def by (metis (mono_tags, lifting) mem_Collect_eq)
qed

subsection \<open>Correctness of the matcher\<close>

lemma in_conc_iff: "w \<in> conc A B \<longleftrightarrow> (\<exists>u v. w = u @ v \<and> u \<in> A \<and> v \<in> B)"
  by (auto simp: conc_def)

lemma Nil_in_conc: "[] \<in> conc A B \<longleftrightarrow> [] \<in> A \<and> [] \<in> B"
  by (auto simp: conc_def)

lemma Cons_in_conc:
  "c # w \<in> conc A B \<longleftrightarrow>
     (\<exists>u v. w = u @ v \<and> c # u \<in> A \<and> v \<in> B) \<or> ([] \<in> A \<and> c # w \<in> B)"
  by (auto simp: conc_def Cons_eq_append_conv)

lemma Deriv_conc:
  "{w. c # w \<in> conc A B} =
     conc {w. c # w \<in> A} B \<union> (if [] \<in> A then {w. c # w \<in> B} else {})"
proof (rule set_eqI)
  fix w
  have "w \<in> conc {w. c # w \<in> A} B \<longleftrightarrow> (\<exists>u v. w = u @ v \<and> c # u \<in> A \<and> v \<in> B)"
    by (simp add: in_conc_iff)
  then show "w \<in> {w. c # w \<in> conc A B} \<longleftrightarrow>
      w \<in> conc {w. c # w \<in> A} B \<union> (if [] \<in> A then {w. c # w \<in> B} else {})"
    using Cons_in_conc [of c w A B] by auto
qed

lemma Deriv_reps:
  "{w. c # w \<in> reps A m n} =
     (if n = Some 0 then {} else conc {w. c # w \<in> A} (reps A (m - 1) (dec_bound n)))"
proof (rule set_eqI)
  fix w
  have "w \<in> conc {w. c # w \<in> A} (reps A (m - 1) (dec_bound n)) \<longleftrightarrow>
      (\<exists>u v. w = u @ v \<and> c # u \<in> A \<and> v \<in> reps A (m - 1) (dec_bound n))"
    by (simp add: in_conc_iff)
  then show "w \<in> {w. c # w \<in> reps A m n} \<longleftrightarrow> w \<in> (if n = Some 0 then {}
      else conc {w. c # w \<in> A} (reps A (m - 1) (dec_bound n)))"
    using Cons_in_reps [of c w A m n] by auto
qed

lemma nullable_iff: "nullable r \<longleftrightarrow> [] \<in> lang r"
  by (induction r) (auto simp: Nil_in_conc Nil_in_reps)

lemma lang_deriv: "lang (deriv c r) = {w. c # w \<in> lang r}"
  by (induction r) (auto simp: Deriv_conc Deriv_reps nullable_iff)

lemma lang_derivs: "lang (derivs s r) = {w. s @ w \<in> lang r}"
  by (induction s arbitrary: r) (auto simp: lang_deriv)

lemma rmatch_lang: "rmatch r s \<longleftrightarrow> s \<in> lang r"
  by (simp add: rmatch_def nullable_iff lang_derivs)

subsection \<open>Languages of the pattern shapes the validators use\<close>

lemma append_in_conc: "u \<in> A \<Longrightarrow> v \<in> B \<Longrightarrow> u @ v \<in> conc A B"
  by (auto simp: in_conc_iff)

lemma Cons_in_conc_single: "w \<in> B \<Longrightarrow> c # w \<in> conc {[c]} B"
  by (auto simp: in_conc_iff)

lemma singletons_concat: "set ws \<subseteq> {[c] | c. P c} \<Longrightarrow> ws = map (\<lambda>c. [c]) (concat ws)"
  by (induction ws) auto

text \<open>A repeated character class matches the strings of the right length over the class.\<close>

lemma reps_singletons:
  "reps {[c] | c. P c} m n = {w. set w \<subseteq> Collect P \<and> m \<le> length w \<and> le_bound (length w) n}"
proof (rule set_eqI)
  fix w
  show "w \<in> reps {[c] | c. P c} m n \<longleftrightarrow>
      w \<in> {w. set w \<subseteq> Collect P \<and> m \<le> length w \<and> le_bound (length w) n}"
  proof
    assume "w \<in> reps {[c] | c. P c} m n"
    then obtain ws where ws: "w = concat ws" "set ws \<subseteq> {[c] | c. P c}" "m \<le> length ws"
        "le_bound (length ws) n"
      by (auto simp: reps_def)
    then have "ws = map (\<lambda>c. [c]) w"
      using singletons_concat by blast
    with ws show "w \<in> {w. set w \<subseteq> Collect P \<and> m \<le> length w \<and> le_bound (length w) n}"
      by auto
  next
    assume w: "w \<in> {w. set w \<subseteq> Collect P \<and> m \<le> length w \<and> le_bound (length w) n}"
    have "concat (map (\<lambda>c. [c]) w) = w"
      by (induction w) auto
    with w show "w \<in> reps {[c] | c. P c} m n"
      unfolding reps_def by (intro CollectI exI [of _ "map (\<lambda>c. [c]) w"]) auto
  qed
qed

text \<open>The optional pattern \<open>P?\<close> is \<open>P{0,1}\<close>.\<close>

lemma reps_opt: "reps A 0 (Some (Suc 0)) = insert [] A"
proof (rule set_eqI)
  fix w
  show "w \<in> reps A 0 (Some (Suc 0)) \<longleftrightarrow> w \<in> insert [] A"
  proof
    assume "w \<in> reps A 0 (Some (Suc 0))"
    then obtain ws where "w = concat ws" "set ws \<subseteq> A" "length ws \<le> 1"
      by (auto simp: reps_def)
    then show "w \<in> insert [] A"
      by (cases ws) auto
  next
    assume "w \<in> insert [] A"
    then consider "w = []" | "w \<in> A"
      by blast
    then show "w \<in> reps A 0 (Some (Suc 0))"
    proof cases
      case 1
      then show ?thesis
        unfolding reps_def by (auto intro!: exI [of _ "[]"])
    next
      case 2
      then show ?thesis
        unfolding reps_def by (auto intro!: exI [of _ "[w]"])
    qed
  qed
qed

text \<open>C13: \<open>re.match("^P$", s)\<close> succeeds exactly when \<open>s\<close>, or \<open>s\<close> without
  one final newline, is in the language of \<open>P\<close>; the executable derivative matcher
  that decides it agrees with the regular-expression semantics on every pattern built
  from literals, classes, alternation, sequence and repetition.\<close>

theorem re_match_full_correct:
  "re_match_full r s \<longleftrightarrow> s \<in> lang r \<or> (\<exists>t. s = t @ [CHR 0x0A] \<and> t \<in> lang r)"
  using last_butlast_iff [where P = "\<lambda>t. t \<in> lang r"]
  by (simp add: re_match_full_def rmatch_def nullable_iff lang_derivs)

end
