(* ===== verification/Validators.thy ===== *)
theory Validators
  imports Regex
begin

text \<open>
  The field validators of \<open>src/qachat.py\<close>: \<open>validate_email\<close> (lines 44-45) and
  \<open>validate_phone\<close> (lines 48-49).  Each is \<open>re.match\<close> of an anchored pattern; the
  patterns are transcribed into the \<open>rx\<close> syntax of theory \<open>Regex\<close>, and the match
  object's truth value is the \<open>bool\<close> of \<open>re_match_full\<close>.  The theorems
  characterise the accepted strings without regular expressions.
\<close>

text \<open>\<open>^\+?\d{10,15}$\<close>\<close>

definition phone_rx :: rx where
  "phone_rx = Cat (Repeat 0 (Some 1) (Lit CHR ''+'')) (Repeat 10 (Some 15) (In [Cls_digit]))"

text \<open>\<open>^[\w.%+-]+@[\w.-]+\.[a-zA-Z]{2,}$\<close>\<close>

definition email_local_cls :: "cls_item list" where
  "email_local_cls =
     [Cls_word, Cls_char CHR ''.'', Cls_char CHR ''%'', Cls_char CHR ''+'', Cls_char CHR ''-'']"

definition email_domain_cls :: "cls_item list" where
  "email_domain_cls = [Cls_word, Cls_char CHR ''.'', Cls_char CHR ''-'']"

definition email_tld_cls :: "cls_item list" where
  "email_tld_cls = [Cls_range CHR ''a'' CHR ''z'', Cls_range CHR ''A'' CHR ''Z'']"

definition email_rx :: rx where
  "email_rx =
     Cat (Repeat 1 None (In email_local_cls))
      (Cat (Lit CHR ''@'')
        (Cat (Repeat 1 None (In email_domain_cls))
          (Cat (Lit CHR ''.'') (Repeat 2 None (In email_tld_cls)))))"

definition validate_email :: "pystr \<Rightarrow> bool" where
  "validate_email email = re_match_full email_rx email"

definition validate_phone :: "pystr \<Rightarrow> bool" where
  "validate_phone phone = re_match_full phone_rx phone"

subsection \<open>Regular-expression-free characterisations\<close>

text \<open>The phone shape: an optional \<open>+\<close>, then 10 to 15 decimal digits.\<close>

definition phone_digits_ok :: "pystr \<Rightarrow> bool" where
  "phone_digits_ok d = (10 \<le> length d \<and> length d \<le> 15 \<and> list_all is_py_digit d)"

definition phone_shape :: "pystr \<Rightarrow> bool" where
  "phone_shape s =
     (case s of [] \<Rightarrow> False
      | c # t \<Rightarrow> (if c = CHR ''+'' then phone_digits_ok t else phone_digits_ok s))"

text \<open>The e-mail shape, computed the way a hand-written checker would: split at the
  first \<open>@\<close>, split the rest at its last \<open>.\<close>, check the three parts.\<close>

definition split_first :: "char \<Rightarrow> string \<Rightarrow> (string \<times> string) option" where
  "split_first x s =
     (if x \<in> set s then Some (takeWhile (\<lambda>c. c \<noteq> x) s, tl (dropWhile (\<lambda>c. c \<noteq> x) s)) else None)"

definition split_last :: "char \<Rightarrow> string \<Rightarrow> (string \<times> string) option" where
  "split_last x s = map_option (\<lambda>(a, b). (rev b, rev a)) (split_first x (rev s))"

definition email_shape :: "pystr \<Rightarrow> bool" where
  "email_shape s =
     (case split_first CHR ''@'' s of None \<Rightarrow> False
      | Some (l, r) \<Rightarrow>
          (case split_last CHR ''.'' r of None \<Rightarrow> False
           | Some (d, t) \<Rightarrow>
               l \<noteq> [] \<and> list_all (in_class email_local_cls) l
             \<and> d \<noteq> [] \<and> list_all (in_class email_domain_cls) d
             \<and> 2 \<le> length t \<and> list_all (in_class email_tld_cls) t))"

lemma takeWhile_dropWhile_first:
  "x \<notin> set a \<Longrightarrow>
     takeWhile (\<lambda>c. c \<noteq> x) (a @ x # b) = a \<and> dropWhile (\<lambda>c. c \<noteq> x) (a @ x # b) = x # b"
  by (induction a) auto

lemma split_first_Some:
  "split_first x s = Some (a, b) \<longleftrightarrow> s = a @ x # b \<and> x \<notin> set a"
proof
  assume h: "split_first x s = Some (a, b)"
  then have x: "x \<in> set s" and a: "a = takeWhile (\<lambda>c. c \<noteq> x) s"
    and b: "b = tl (dropWhile (\<lambda>c. c \<noteq> x) s)"
    by (auto simp: split_first_def split: if_splits)
  from x have "dropWhile (\<lambda>c. c \<noteq> x) s = x # b"
    unfolding b by (induction s) auto
  then have "s = a @ x # b"
    unfolding a by (metis takeWhile_dropWhile_id)
  moreover have "x \<notin> set a"
    unfolding a by (auto dest: set_takeWhileD)
  ultimately show "s = a @ x # b \<and> x \<notin> set a" ..
next
  assume "s = a @ x # b \<and> x \<notin> set a"
  then show "split_first x s = Some (a, b)"
    by (auto simp: split_first_def takeWhile_dropWhile_first)
qed

lemma split_last_Some:
  "split_last x s = Some (a, b) \<longleftrightarrow> s = a @ x # b \<and> x \<notin> set b"
proof -
  have "split_last x s = Some (a, b) \<longleftrightarrow> split_first x (rev s) = Some (rev b, rev a)"
    by (auto simp: split_last_def)
  also have "\<dots> \<longleftrightarrow> rev s = rev b @ x # rev a \<and> x \<notin> set b"
    by (simp add: split_first_Some)
  also have "\<dots> \<longleftrightarrow> s = a @ x # b \<and> x \<notin> set b"
    by (metis rev_append rev_rev_ident rev.simps(2) append_assoc append_Cons append_Nil)
  finally show ?thesis .
qed

lemma lang_phone_rx: "s \<in> lang phone_rx \<longleftrightarrow> phone_shape s"
proof -
  have "s \<in> lang phone_rx \<longleftrightarrow> (\<exists>u v. s = u @ v \<and> (u = [] \<or> u = ''+'') \<and> phone_digits_ok v)"
    by (auto simp: phone_rx_def in_conc_iff reps_opt reps_singletons phone_digits_ok_def
        list_all_iff in_class_def)
  also have "\<dots> \<longleftrightarrow> phone_digits_ok s \<or> (\<exists>t. s = CHR ''+'' # t \<and> phone_digits_ok t)"
    by (auto intro: exI [of _ "''+''"])
  also have "\<dots> \<longleftrightarrow> phone_shape s"
  proof (cases s)
    case (Cons c t)
    have "\<not> is_py_digit CHR ''+''"
      by (simp add: is_py_digit_def)
    then show ?thesis
      using Cons by (auto simp: phone_shape_def phone_digits_ok_def)
  qed (simp add: phone_shape_def phone_digits_ok_def)
  finally show ?thesis .
qed

abbreviation email_parts :: "pystr \<Rightarrow> pystr \<Rightarrow> pystr \<Rightarrow> bool" where
  "email_parts l d t \<equiv>
     l \<noteq> [] \<and> list_all (in_class email_local_cls) l
   \<and> d \<noteq> [] \<and> list_all (in_class email_domain_cls) d
   \<and> 2 \<le> length t \<and> list_all (in_class email_tld_cls) t"

lemma lang_email_rx:
  "s \<in> lang email_rx \<longleftrightarrow> (\<exists>l d t. s = l @ CHR ''@'' # d @ CHR ''.'' # t \<and> email_parts l d t)"
    (is "?l \<longleftrightarrow> ?r")
proof
  assume ?l
  then obtain l d t where "s = l @ CHR ''@'' # d @ CHR ''.'' # t"
    "set l \<subseteq> Collect (in_class email_local_cls)" "l \<noteq> []"
    "set d \<subseteq> Collect (in_class email_domain_cls)" "d \<noteq> []"
    "set t \<subseteq> Collect (in_class email_tld_cls)" "2 \<le> length t"
    by (auto simp: email_rx_def in_conc_iff reps_singletons Suc_le_eq)
  then show ?r
    unfolding list_all_iff by blast
next
  assume ?r
  then obtain l d t where s: "s = l @ CHR ''@'' # d @ CHR ''.'' # t"
    and parts: "email_parts l d t"
    by blast
  have l: "l \<in> lang (Repeat 1 None (In email_local_cls))"
    and d: "d \<in> lang (Repeat 1 None (In email_domain_cls))"
    and t: "t \<in> lang (Repeat 2 None (In email_tld_cls))"
    using parts by (auto simp: reps_singletons list_all_iff Suc_le_eq)
  show ?l
    unfolding s email_rx_def lang.simps(3,6)
    by (intro append_in_conc Cons_in_conc_single l d t)
qed

lemma at_not_local: "\<not> in_class email_local_cls CHR ''@''"
  and dot_not_tld: "\<not> in_class email_tld_cls CHR ''.''"
  by (simp_all add: in_class_def email_local_cls_def email_tld_cls_def py_simps)

lemma email_shape_iff:
  "email_shape s \<longleftrightarrow> (\<exists>l d t. s = l @ CHR ''@'' # d @ CHR ''.'' # t \<and> email_parts l d t)"
proof
  assume "email_shape s"
  then obtain l r d t where "split_first CHR ''@'' s = Some (l, r)"
    "split_last CHR ''.'' r = Some (d, t)" "email_parts l d t"
    by (auto simp: email_shape_def split: option.splits)
  then show "\<exists>l d t. s = l @ CHR ''@'' # d @ CHR ''.'' # t \<and> email_parts l d t"
    by (auto simp: split_first_Some split_last_Some)
next
  assume "\<exists>l d t. s = l @ CHR ''@'' # d @ CHR ''.'' # t \<and> email_parts l d t"
  then obtain l d t where s: "s = l @ CHR ''@'' # d @ CHR ''.'' # t" and p: "email_parts l d t"
    by blast
  from p have "CHR ''@'' \<notin> set l" "CHR ''.'' \<notin> set t"
    using at_not_local dot_not_tld by (auto simp: list_all_iff)
  then have "split_first CHR ''@'' s = Some (l, d @ CHR ''.'' # t)"
    "split_last CHR ''.'' (d @ CHR ''.'' # t) = Some (d, t)"
    by (simp_all add: s split_first_Some split_last_Some)
  with p show "email_shape s"
    by (simp add: email_shape_def)
qed

subsection \<open>Properties of the validators\<close>

text \<open>C11: \<open>validate_phone\<close> accepts exactly an optional \<open>+\<close> followed by 10 to 15
  decimal digits, or such a string followed by one newline (Python's \<open>$\<close> also
  matches before a final newline).\<close>

theorem validate_phone_iff:
  "validate_phone s \<longleftrightarrow> phone_shape s \<or> (\<exists>t. s = t @ [CHR 0x0A] \<and> phone_shape t)"
  using last_butlast_iff [where P = "\<lambda>t. t \<in> lang phone_rx"]
  by (simp add: validate_phone_def re_match_full_def rmatch_lang lang_phone_rx)

text \<open>C12: \<open>validate_email\<close> accepts exactly the strings that split at their first
  \<open>@\<close> and then at the last \<open>.\<close> into a non-empty local part over \<open>[\w.%+-]\<close>, a
  non-empty domain over \<open>[\w.-]\<close> and a top-level part of at least two ASCII letters,
  or such a string followed by one newline: the backtracking regular expression and
  the two-split checker \<open>email_shape\<close> agree on every input.\<close>

theorem validate_email_iff:
  "validate_email s \<longleftrightarrow> email_shape s \<or> (\<exists>t. s = t @ [CHR 0x0A] \<and> email_shape t)"
  using last_butlast_iff [where P = "\<lambda>t. t \<in> lang email_rx"]
  by (simp add: validate_email_def re_match_full_def rmatch_lang lang_email_rx email_shape_iff)

end
