(* ===== verification/Calendar.thy ===== *)
theory Calendar
  imports Py_Str
begin

text \<open>
  The part of Python's \<open>datetime\<close> module that \<open>parse_date\<close> (\<open>src/qachat.py\<close>
  lines 27-41) relies on: the proleptic Gregorian calendar of \<open>date\<close> (years 1 ..
  9999), \<open>toordinal\<close> and \<open>weekday\<close>, addition of a \<open>timedelta\<close> of whole days
  (which raises \<open>OverflowError\<close> past 9999-12-31), and \<open>strftime("%Y-%m-%d")\<close>.
  The definitions follow CPython's pure-Python \<open>datetime\<close> (\<open>_is_leap\<close>,
  \<open>_days_in_month\<close>, \<open>_days_before_year\<close>, \<open>_days_before_month\<close>,
  \<open>_ymd2ord\<close>).  \<open>datetime.now()\<close> carries a time of day as well; adding days keeps
  it and \<open>%Y-%m-%d\<close> does not print it, so only the date is modelled.  Addition is
  modelled by stepping one calendar day at a time (\<open>next_day\<close>), and the theorems show
  that this is Python's ordinal arithmetic.
\<close>

record date =
  year :: nat
  month :: nat
  day :: nat

definition max_year :: nat where
  "max_year = 9999"

definition is_leap :: "nat \<Rightarrow> bool" where
  "is_leap y = (y mod 4 = 0 \<and> (y mod 100 \<noteq> 0 \<or> y mod 400 = 0))"

definition days_in_month :: "nat \<Rightarrow> nat \<Rightarrow> nat" where
  "days_in_month y m =
     (if m = 2 \<and> is_leap y then 29
      else [31, 28, 31, 30, 31, 30, 31, 31, 30, 31, 30, 31] ! (m - 1))"

definition days_before_year :: "nat \<Rightarrow> nat" where
  "days_before_year y = (let y' = y - 1 in y' * 365 + y' div 4 - y' div 100 + y' div 400)"

definition days_before_month :: "nat \<Rightarrow> nat \<Rightarrow> nat" where
  "days_before_month y m =
     [0, 0, 31, 59, 90, 120, 151, 181, 212, 243, 273, 304, 334] ! m
     + (if m > 2 \<and> is_leap y then 1 else 0)"

definition valid_date :: "date \<Rightarrow> bool" where
  "valid_date d =
     (1 \<le> year d \<and> year d \<le> max_year \<and> 1 \<le> month d \<and> month d \<le> 12
      \<and> 1 \<le> day d \<and> day d \<le> days_in_month (year d) (month d))"

definition toordinal :: "date \<Rightarrow> nat" where
  "toordinal d = days_before_year (year d) + days_before_month (year d) (month d) + day d"

definition weekday :: "date \<Rightarrow> nat" where
  "weekday d = (toordinal d + 6) mod 7"

definition max_ordinal :: nat where
  "max_ordinal = 3652059"

text \<open>The calendar day after \<open>d\<close>; \<open>None\<close> is the \<open>OverflowError\<close> after
  9999-12-31.\<close>

definition next_day :: "date \<Rightarrow> date option" where
  "next_day d =
     (if day d < days_in_month (year d) (month d) then Some (d\<lparr>day := Suc (day d)\<rparr>)
      else if month d < 12 then Some (d\<lparr>month := Suc (month d), day := 1\<rparr>)
      else if year d < max_year then Some \<lparr>year = Suc (year d), month = 1, day = 1\<rparr>
      else None)"

text \<open>\<open>d + timedelta(days=n)\<close> for \<open>n \<ge> 0\<close>.\<close>

primrec add_days :: "nat \<Rightarrow> date \<Rightarrow> date option" where
  "add_days 0 d = Some d"
| "add_days (Suc n) d = Option.bind (next_day d) (add_days n)"

text \<open>\<open>strftime("%Y-%m-%d")\<close>: glibc prints \<open>%Y\<close> as the decimal year
  without padding and \<open>%m\<close>, \<open>%d\<close> as two digits.\<close>

definition digit_char :: "nat \<Rightarrow> char" where
  "digit_char n = char_of (48 + n)"

fun show_nat :: "nat \<Rightarrow> string" where
  "show_nat n = (if n < 10 then [digit_char n] else show_nat (n div 10) @ [digit_char (n mod 10)])"

declare show_nat.simps [simp del]

definition pad2 :: "nat \<Rightarrow> string" where
  "pad2 n = (if n < 10 then CHR ''0'' # show_nat n else show_nat n)"

definition strftime_ymd :: "date \<Rightarrow> string" where
  "strftime_ymd d = show_nat (year d) @ ''-'' @ pad2 (month d) @ ''-'' @ pad2 (day d)"

lemma add_days_numeral:
  "add_days (numeral k) d = Option.bind (next_day d) (add_days (pred_numeral k))"
  by (simp add: numeral_eq_Suc)

lemmas calendar_eval [cal_simps] =
  toordinal_def weekday_def days_before_year_def days_before_month_def is_leap_def
  next_day_def days_in_month_def max_year_def valid_date_def max_ordinal_def
  strftime_ymd_def pad2_def show_nat.simps digit_char_def add_days_numeral

subsection \<open>Day counts\<close>

lemma month_cases_12:
  "1 \<le> m \<Longrightarrow> m \<le> (12::nat) \<Longrightarrow>
     m = 1 \<or> m = 2 \<or> m = 3 \<or> m = 4 \<or> m = 5 \<or> m = 6 \<or> m = 7 \<or> m = 8 \<or> m = 9 \<or> m = 10
     \<or> m = 11 \<or> m = 12"
proof -
  assume "1 \<le> m" "m \<le> 12"
  then have "m \<in> set [1..<13]"
    by simp
  then show ?thesis
    by (simp add: upt_rec eval_nat_numeral)
qed

lemma days_in_month_pos: "1 \<le> m \<Longrightarrow> m \<le> 12 \<Longrightarrow> 28 \<le> days_in_month y m"
  by (drule (1) month_cases_12) (auto simp: days_in_month_def)

lemma days_before_month_Suc:
  "1 \<le> m \<Longrightarrow> m < 12 \<Longrightarrow>
     days_before_month y (Suc m) = days_before_month y m + days_in_month y m"
  by (drule month_cases_12, simp) (auto simp: days_before_month_def days_in_month_def)

lemma div_Suc_dvd: "0 < n \<Longrightarrow> Suc k div n = k div n + (if n dvd Suc k then 1 else 0)"
  by (auto simp: div_Suc dvd_eq_mod_eq_0)

text \<open>Python's closed formula for the days before a year agrees with adding up the
  lengths of the years.\<close>

lemma days_before_year_Suc:
  "1 \<le> y \<Longrightarrow> days_before_year (Suc y) = days_before_year y + (if is_leap y then 366 else 365)"
proof -
  assume "1 \<le> y"
  then obtain k where y: "y = Suc k"
    by (cases y) auto
  define A B C where "A = k div 4" and "B = k div 100" and "C = k div 400"
  define P Q R where "P = (4 dvd Suc k)" and "Q = (100 dvd Suc k)" and "R = (400 dvd Suc k)"
  have abc: "Suc k div 4 = A + (if P then 1 else 0)" "Suc k div 100 = B + (if Q then 1 else 0)"
      "Suc k div 400 = C + (if R then 1 else 0)"
    by (simp_all add: div_Suc_dvd A_def B_def C_def P_def Q_def R_def)
  have le: "B \<le> k * 365"
    unfolding B_def
    by (metis div_le_dividend le_trans mult.commute mult_le_mono1 nat_mult_1 one_le_numeral)
  have QP: "Q \<Longrightarrow> P" and RQ: "R \<Longrightarrow> Q"
    unfolding P_def Q_def R_def by (rule dvd_trans [rotated], simp, simp)+
  have leap: "is_leap y \<longleftrightarrow> P \<and> (\<not> Q \<or> R)"
    by (simp add: is_leap_def y dvd_eq_mod_eq_0 P_def Q_def R_def)
  have "days_before_year (Suc y) = Suc k * 365 + Suc k div 4 - Suc k div 100 + Suc k div 400"
    and "days_before_year y = k * 365 + A - B + C"
    by (simp_all add: days_before_year_def y A_def B_def C_def)
  then show ?thesis
    unfolding leap abc using le QP RQ by (cases P; cases Q; cases R) simp_all
qed

lemma days_before_year_mono:
  assumes "1 \<le> y" and "y \<le> y'"
  shows "days_before_year y \<le> days_before_year y'"
  using assms(2)
proof (induction y' rule: dec_induct)
  case base
  show ?case by simp
next
  case (step n)
  then show ?case
    using days_before_year_Suc [of n] assms(1) by simp
qed

text \<open>The last day of a month ends no later than the year does.\<close>

lemma month_end_le_year_end:
  "1 \<le> y \<Longrightarrow> 1 \<le> m \<Longrightarrow> m \<le> 12 \<Longrightarrow>
     days_before_year y + days_before_month y m + days_in_month y m \<le> days_before_year (Suc y)"
  by (drule (1) month_cases_12)
     (auto simp: days_before_year_Suc days_before_month_def days_in_month_def)

lemma toordinal_le_max:
  assumes "valid_date d"
  shows "toordinal d \<le> max_ordinal"
proof -
  from assms have "toordinal d \<le> days_before_year (Suc (year d))"
    using month_end_le_year_end [of "year d" "month d"]
    by (auto simp: valid_date_def toordinal_def)
  also have "\<dots> \<le> days_before_year (Suc max_year)"
    using assms by (intro days_before_year_mono) (auto simp: valid_date_def)
  also have "\<dots> = max_ordinal"
    by (simp add: days_before_year_def max_year_def max_ordinal_def)
  finally show ?thesis .
qed

subsection \<open>Stepping one day is Python's ordinal successor\<close>

lemma next_day_Some:
  assumes v: "valid_date d" and nd: "next_day d = Some d'"
  shows "valid_date d' \<and> toordinal d' = Suc (toordinal d)"
proof -
  have y: "1 \<le> year d" and m: "1 \<le> month d" "month d \<le> 12"
    and dd: "1 \<le> day d" "day d \<le> days_in_month (year d) (month d)"
    using v by (auto simp: valid_date_def)
  consider (same_month) "day d < days_in_month (year d) (month d)"
    | (next_month) "\<not> day d < days_in_month (year d) (month d)" "month d < 12"
    | (next_year) "\<not> day d < days_in_month (year d) (month d)" "\<not> month d < 12"
    by blast
  then show ?thesis
  proof cases
    case same_month
    with nd v show ?thesis
      by (auto simp: next_day_def valid_date_def toordinal_def)
  next
    case next_month
    with dd have "day d = days_in_month (year d) (month d)"
      by simp
    moreover have "1 \<le> days_in_month (year d) (Suc (month d))"
      using days_in_month_pos [of "Suc (month d)" "year d"] next_month by simp
    ultimately show ?thesis
      using nd next_month v m days_before_month_Suc [of "month d" "year d"]
      by (auto simp: next_day_def valid_date_def toordinal_def)
  next
    case next_year
    with m dd have "month d = 12" "day d = 31"
      by (auto simp: days_in_month_def)
    then show ?thesis
      using nd next_year y days_before_year_Suc [of "year d"]
      by (auto simp: next_day_def valid_date_def toordinal_def days_before_month_def
          days_in_month_def split: if_splits)
  qed
qed

lemma next_day_None:
  assumes v: "valid_date d"
  shows "next_day d = None \<longleftrightarrow> toordinal d = max_ordinal"
proof
  assume "next_day d = None"
  with v have "year d = max_year" "month d = 12" "day d = 31"
    by (auto simp: next_day_def valid_date_def days_in_month_def split: if_splits)
  then show "toordinal d = max_ordinal"
    by (simp add: toordinal_def days_before_year_def days_before_month_def is_leap_def
        max_year_def max_ordinal_def)
next
  assume top: "toordinal d = max_ordinal"
  show "next_day d = None"
  proof (cases "next_day d")
    case (Some d')
    with v have "valid_date d'" "toordinal d' = Suc max_ordinal"
      using next_day_Some top by auto
    then show ?thesis
      using toordinal_le_max [of d'] by simp
  qed
qed

lemma add_days_Some:
  "valid_date d \<Longrightarrow> add_days n d = Some d' \<Longrightarrow> valid_date d' \<and> toordinal d' = toordinal d + n"
proof (induction n arbitrary: d)
  case 0
  then show ?case by simp
next
  case (Suc n)
  then obtain e where e: "next_day d = Some e" "add_days n e = Some d'"
    by (auto split: Option.bind_splits)
  with Suc.prems have "valid_date e" "toordinal e = Suc (toordinal d)"
    using next_day_Some by blast+
  with Suc.IH e show ?case
    by simp
qed

lemma add_days_None:
  "valid_date d \<Longrightarrow> add_days n d = None \<longleftrightarrow> max_ordinal < toordinal d + n"
proof (induction n arbitrary: d)
  case 0
  then show ?case
    using toordinal_le_max [of d] by simp
next
  case (Suc n)
  show ?case
  proof (cases "next_day d")
    case None
    with Suc.prems have "toordinal d = max_ordinal"
      using next_day_None by blast
    with None show ?thesis
      by simp
  next
    case (Some e)
    with Suc.prems have "valid_date e" "toordinal e = Suc (toordinal d)"
      using next_day_Some by blast+
    with Suc.IH [of e] Some show ?thesis
      by simp
  qed
qed

lemma weekday_add_days:
  "valid_date d \<Longrightarrow> add_days n d = Some d' \<Longrightarrow> weekday d' = (weekday d + n) mod 7"
proof -
  assume "valid_date d" "add_days n d = Some d'"
  then have "toordinal d' = toordinal d + n"
    by (blast dest: add_days_Some)
  then show ?thesis
    by (simp add: weekday_def mod_add_right_eq ac_simps)
qed

subsection \<open>The printed date\<close>

lemma digit_char_digit: "n < 10 \<Longrightarrow> is_py_digit (digit_char n)"
  by (simp add: digit_char_def is_py_digit_def)

lemma show_nat_digits: "list_all is_py_digit (show_nat n) \<and> show_nat n \<noteq> []"
proof (induction n rule: show_nat.induct)
  case (1 n)
  then show ?case
    by (auto simp: show_nat.simps [of n] digit_char_digit)
qed

lemma pad2_digits: "list_all is_py_digit (pad2 n) \<and> pad2 n \<noteq> []"
  using show_nat_digits [of n] by (simp add: pad2_def is_py_digit_def)

lemma strftime_ymd_chars: "set (strftime_ymd d) \<subseteq> Collect is_py_digit \<union> {CHR ''-''}"
  using show_nat_digits [of "year d"] pad2_digits [of "month d"] pad2_digits [of "day d"]
  by (auto simp: strftime_ymd_def list_all_iff)

lemma days_in_month_le: "1 \<le> m \<Longrightarrow> m \<le> 12 \<Longrightarrow> days_in_month y m \<le> 31"
  by (drule (1) month_cases_12) (auto simp: days_in_month_def)

lemma length_show_nat_le: "length (show_nat n) \<le> Suc k \<longleftrightarrow> n < 10 ^ Suc k"
proof (induction k arbitrary: n)
  case 0
  show ?case
    using show_nat_digits [of "n div 10"] by (simp add: show_nat.simps [of n])
next
  case (Suc k)
  show ?case
  proof (cases "n < 10")
    case True
    have "(10::nat) ^ 1 \<le> 10 ^ Suc (Suc k)"
      by (rule power_increasing) simp_all
    with True have "n < 10 ^ Suc (Suc k)"
      by (metis less_le_trans power_one_right)
    with True show ?thesis
      by (simp add: show_nat.simps [of n])
  next
    case False
    then have "length (show_nat n) \<le> Suc (Suc k) \<longleftrightarrow> n div 10 < 10 ^ Suc k"
      by (simp add: show_nat.simps [of n] Suc.IH)
    also have "\<dots> \<longleftrightarrow> n < 10 ^ Suc (Suc k)"
      by (simp add: div_less_iff_less_mult mult.commute)
    finally show ?thesis .
  qed
qed

lemma length_show_nat_year:
  "n \<le> 9999 \<Longrightarrow> length (show_nat n) \<le> 4 \<and> (length (show_nat n) = 4 \<longleftrightarrow> 1000 \<le> n)"
  using length_show_nat_le [of n 3] length_show_nat_le [of n 2] by auto

lemma length_pad2: "1 \<le> n \<Longrightarrow> n < 100 \<Longrightarrow> length (pad2 n) = 2"
  using length_show_nat_le [of n 1] length_show_nat_le [of n 0] show_nat_digits [of n]
  by (auto simp: pad2_def le_Suc_eq)

subsection \<open>Properties of the calendar model\<close>

text \<open>C20: adding \<open>n\<close> days by stepping the calendar is Python's
  \<open>date + timedelta(days=n)\<close>: it raises \<open>OverflowError\<close> exactly when the
  ordinal \<open>toordinal d + n\<close> passes that of 9999-12-31, and otherwise returns a valid
  date whose ordinal is \<open>toordinal d + n\<close>.\<close>

theorem add_days_ordinal:
  "valid_date d \<Longrightarrow>
     (case add_days n d of
        None \<Rightarrow> max_ordinal < toordinal d + n
      | Some d' \<Rightarrow> valid_date d' \<and> toordinal d' = toordinal d + n)"
proof (cases "add_days n d")
  case None
  moreover assume "valid_date d"
  ultimately show ?thesis
    using add_days_None [of d n] by simp
next
  case (Some d')
  moreover assume "valid_date d"
  ultimately show ?thesis
    using add_days_Some [of d n d'] by simp
qed

theorem add_days_ordinal_witness:
  "valid_date \<lparr>year = 2026, month = 12, day = 30\<rparr>
   \<and> (case add_days 5 \<lparr>year = 2026, month = 12, day = 30\<rparr> of
        None \<Rightarrow> max_ordinal < toordinal \<lparr>year = 2026, month = 12, day = 30\<rparr> + 5
      | Some d' \<Rightarrow> valid_date d' \<and> toordinal d' = toordinal \<lparr>year = 2026, month = 12, day = 30\<rparr> + 5)"
proof -
  have h: "valid_date \<lparr>year = 2026, month = 12, day = 30\<rparr>"
    by (simp add: valid_date_def max_year_def days_in_month_def is_leap_def)
  show ?thesis
    using h add_days_ordinal [OF h, of 5] by (rule conjI)
qed

text \<open>A printed date consists of digits and dashes, so it never contains the word
  \<open>Error\<close>.\<close>

lemma strftime_ymd_no_Error: "\<not> sublist ''Error'' (strftime_ymd d)"
proof
  assume "sublist ''Error'' (strftime_ymd d)"
  then have "CHR ''E'' \<in> set (strftime_ymd d)"
    using set_mono_sublist by fastforce
  then show False
    using strftime_ymd_chars [of d] by (auto simp: is_py_digit_def)
qed

text \<open>C27: the \<open>%Y-%m-%d\<close> rendering of a valid date is digits with two
  dashes, month and day two digits each; the year takes four digits exactly for
  years from 1000 on, since glibc does not pad \<open>%Y\<close>.\<close>

theorem strftime_ymd_shape:
  assumes "valid_date d"
  shows "\<exists>y m dd. strftime_ymd d = y @ ''-'' @ m @ ''-'' @ dd \<and> length m = 2 \<and> length dd = 2
    \<and> list_all is_py_digit (y @ m @ dd) \<and> length y \<le> 4 \<and> (length y = 4 \<longleftrightarrow> 1000 \<le> year d)"
proof -
  have "month d < 100" "day d < 100"
    using assms days_in_month_le [of "month d" "year d"] by (auto simp: valid_date_def)
  then show ?thesis
    using assms show_nat_digits [of "year d"] pad2_digits [of "month d"] pad2_digits [of "day d"]
      length_pad2 [of "month d"] length_pad2 [of "day d"] length_show_nat_year [of "year d"]
    by (auto simp: strftime_ymd_def valid_date_def max_year_def)
qed

theorem strftime_ymd_shape_witness:
  "valid_date \<lparr>year = 999, month = 1, day = 1\<rparr>
   \<and> (\<exists>y m dd. strftime_ymd \<lparr>year = 999, month = 1, day = 1\<rparr> = y @ ''-'' @ m @ ''-'' @ dd
      \<and> length m = 2 \<and> length dd = 2 \<and> list_all is_py_digit (y @ m @ dd) \<and> length y \<le> 4
      \<and> (length y = 4 \<longleftrightarrow> 1000 \<le> year \<lparr>year = 999, month = 1, day = 1\<rparr>))"
proof -
  have v: "valid_date \<lparr>year = 999, month = 1, day = 1\<rparr>"
    by (simp add: valid_date_def max_year_def days_in_month_def)
  show ?thesis
    using v strftime_ymd_shape [OF v] by (rule conjI)
qed

end
