(* ===== verification/Date_Parse.thy ===== *)
theory Date_Parse
  imports Calendar
begin

text \<open>
  \<open>parse_date\<close> of \<open>src/qachat.py\<close> (lines 27-41).  \<open>datetime.now()\<close> is the
  parameter \<open>today\<close>.  Python's result is a \<open>str\<close> or, on the path where the query
  mentions \<open>next\<close> but not \<open>monday\<close>, the implicit \<open>None\<close> of falling off the
  function's end; the model returns \<open>pystr option\<close> with \<open>None\<close> for Python's
  \<open>None\<close>.  The only exception the body can raise is the \<open>OverflowError\<close> of
  \<open>today + timedelta(...)\<close> past 9999-12-31, which the \<open>except\<close> clause turns into
  the second error message.
\<close>

definition err_unclear :: pystr where
  "err_unclear = ''Error parsing date. Please specify a clear date.''"

definition err_try_again :: pystr where
  "err_try_again = ''Error parsing date. Please try again.''"

text \<open>\<open>(0 - today.weekday() + 7) % 7 or 7\<close>, in Python's integers.\<close>

definition days_ahead_monday :: "nat \<Rightarrow> int" where
  "days_ahead_monday wd = (let x = (0 - int wd + 7) mod 7 in if x = 0 then 7 else x)"

text \<open>\<open>(today + timedelta(days=k)).strftime("%Y-%m-%d")\<close>, with the
  \<open>OverflowError\<close> caught by the \<open>except\<close> clause.\<close>

definition shifted_date :: "date \<Rightarrow> nat \<Rightarrow> pystr" where
  "shifted_date today k =
     (case add_days k today of None \<Rightarrow> err_try_again | Some d \<Rightarrow> strftime_ymd d)"

definition parse_date :: "date \<Rightarrow> pystr \<Rightarrow> pystr option" where
  "parse_date today query =
     (if sublist ''next'' (py_lower query) then
        (if sublist ''monday'' (py_lower query)
         then Some (shifted_date today (nat (days_ahead_monday (weekday today))))
         else None)
      else if sublist ''tomorrow'' (py_lower query) then Some (shifted_date today 1)
      else if sublist ''today'' (py_lower query) then Some (strftime_ymd today)
      else Some err_unclear)"

lemmas parse_date_eval = parse_date_def shifted_date_def days_ahead_monday_def err_unclear_def
  err_try_again_def

lemma weekday_lt_7: "weekday d < 7"
  by (simp add: weekday_def)

text \<open>The offset to the next Monday is between 1 and 7 days and lands on a Monday.\<close>

lemma days_ahead_monday_props:
  "wd < 7 \<Longrightarrow>
     1 \<le> days_ahead_monday wd \<and> days_ahead_monday wd \<le> 7 \<and> (wd + nat (days_ahead_monday wd)) mod 7 = 0"
proof -
  assume "wd < 7"
  then have "wd \<in> set [0..<7]"
    by simp
  then show ?thesis
    by (auto simp: upt_rec days_ahead_monday_def)
qed

lemma shifted_date_Some:
  assumes "valid_date today" and "toordinal today + k \<le> max_ordinal"
  shows "\<exists>d. add_days k today = Some d \<and> shifted_date today k = strftime_ymd d
    \<and> valid_date d \<and> toordinal d = toordinal today + k \<and> weekday d = (weekday today + k) mod 7"
proof -
  from assms obtain d where d: "add_days k today = Some d"
    using add_days_None [of today k] by fastforce
  with assms show ?thesis
    using add_days_Some [OF assms(1) d] weekday_add_days [OF assms(1) d]
    by (auto simp: shifted_date_def)
qed

lemma err_messages_contain_Error:
  "sublist ''Error'' err_unclear" "sublist ''Error'' err_try_again"
  by (simp_all add: err_unclear_def err_try_again_def)

text \<open>A result without the word \<open>Error\<close> is a printed date.\<close>

lemma parse_date_Some_date:
  "parse_date today q = Some r \<Longrightarrow> \<not> sublist ''Error'' r \<Longrightarrow> \<exists>d. r = strftime_ymd d"
  using err_messages_contain_Error
  by (auto simp: parse_date_def shifted_date_def split: if_splits option.splits)

subsection \<open>Properties of \<open>parse_date\<close>\<close>

text \<open>C15: a query that mentions \<open>next\<close> and \<open>monday\<close> (in any letter case)
  resolves to a Monday strictly after today and at most seven days later, whenever
  that date exists in the calendar.\<close>

theorem parse_date_next_monday:
  assumes "valid_date today" and "sublist ''next'' (py_lower q)" and "sublist ''monday'' (py_lower q)"
    and "toordinal today + 7 \<le> max_ordinal"
  shows "\<exists>d. parse_date today q = Some (strftime_ymd d) \<and> valid_date d \<and> weekday d = 0
    \<and> toordinal today < toordinal d \<and> toordinal d \<le> toordinal today + 7"
proof -
  let ?k = "nat (days_ahead_monday (weekday today))"
  have k: "1 \<le> ?k" "?k \<le> 7" "(weekday today + ?k) mod 7 = 0"
    using days_ahead_monday_props [OF weekday_lt_7 [of today]] by auto
  with assms obtain d where "shifted_date today ?k = strftime_ymd d" "valid_date d"
      "toordinal d = toordinal today + ?k" "weekday d = (weekday today + ?k) mod 7"
    using shifted_date_Some [of today ?k] by auto
  with assms k show ?thesis
    by (auto simp: parse_date_def)
qed

theorem parse_date_next_monday_witness:
  "valid_date \<lparr>year = 2026, month = 11, day = 11\<rparr> \<and> sublist ''next'' (py_lower ''Next Monday'')
   \<and> sublist ''monday'' (py_lower ''Next Monday'')
   \<and> toordinal \<lparr>year = 2026, month = 11, day = 11\<rparr> + 7 \<le> max_ordinal
   \<and> (\<exists>d. parse_date \<lparr>year = 2026, month = 11, day = 11\<rparr> ''Next Monday'' = Some (strftime_ymd d)
        \<and> valid_date d \<and> weekday d = 0
        \<and> toordinal \<lparr>year = 2026, month = 11, day = 11\<rparr> < toordinal d
        \<and> toordinal d \<le> toordinal \<lparr>year = 2026, month = 11, day = 11\<rparr> + 7)"
proof -
  have h1: "valid_date \<lparr>year = 2026, month = 11, day = 11\<rparr>"
    and h4: "toordinal \<lparr>year = 2026, month = 11, day = 11\<rparr> + 7 \<le> max_ordinal"
    by (simp_all add: cal_simps)
  have h2: "sublist ''next'' (py_lower ''Next Monday'')"
    and h3: "sublist ''monday'' (py_lower ''Next Monday'')"
    by (simp_all add: py_simps)
  show ?thesis
    using h1 h2 h3 h4 parse_date_next_monday [OF h1 h2 h3 h4] by blast
qed

text \<open>C16: a query that mentions \<open>tomorrow\<close> but not \<open>next\<close> resolves to the day
  after today whenever that day exists.\<close>

theorem parse_date_tomorrow:
  assumes "valid_date today" and "\<not> sublist ''next'' (py_lower q)"
    and "sublist ''tomorrow'' (py_lower q)" and "toordinal today < max_ordinal"
  shows "\<exists>d. parse_date today q = Some (strftime_ymd d) \<and> valid_date d
    \<and> toordinal d = Suc (toordinal today) \<and> weekday d = (weekday today + 1) mod 7"
  using assms shifted_date_Some [of today 1] by (auto simp: parse_date_def)

theorem parse_date_tomorrow_witness:
  "valid_date \<lparr>year = 2026, month = 12, day = 31\<rparr> \<and> \<not> sublist ''next'' (py_lower ''Tomorrow'')
   \<and> sublist ''tomorrow'' (py_lower ''Tomorrow'')
   \<and> toordinal \<lparr>year = 2026, month = 12, day = 31\<rparr> < max_ordinal
   \<and> (\<exists>d. parse_date \<lparr>year = 2026, month = 12, day = 31\<rparr> ''Tomorrow'' = Some (strftime_ymd d)
        \<and> valid_date d \<and> toordinal d = Suc (toordinal \<lparr>year = 2026, month = 12, day = 31\<rparr>)
        \<and> weekday d = (weekday \<lparr>year = 2026, month = 12, day = 31\<rparr> + 1) mod 7)"
proof -
  have h1: "valid_date \<lparr>year = 2026, month = 12, day = 31\<rparr>"
    and h4: "toordinal \<lparr>year = 2026, month = 12, day = 31\<rparr> < max_ordinal"
    by (simp_all add: cal_simps)
  have h2: "\<not> sublist ''next'' (py_lower ''Tomorrow'')"
    and h3: "sublist ''tomorrow'' (py_lower ''Tomorrow'')"
    by (simp_all add: py_simps)
  show ?thesis
    using h1 h2 h3 h4 parse_date_tomorrow [OF h1 h2 h3 h4] by blast
qed

text \<open>C17: \<open>parse_date\<close> returns Python's \<open>None\<close> exactly for the queries that
  mention \<open>next\<close> without \<open>monday\<close> (\<open>next friday\<close>, \<open>next week\<close>): the
  \<open>if "monday"\<close> branch has no \<open>else\<close>, so no error message is produced there.\<close>

theorem parse_date_None_iff:
  "parse_date today q = None \<longleftrightarrow>
     sublist ''next'' (py_lower q) \<and> \<not> sublist ''monday'' (py_lower q)"
  by (simp add: parse_date_def)

text \<open>C19: on every string result, the caller's test \<open>"Error" in date\<close> is exact:
  it holds for the two error messages and for nothing else \<open>parse_date\<close> returns.\<close>

theorem parse_date_error_sentinel:
  "parse_date today q = Some r \<Longrightarrow>
     sublist ''Error'' r \<longleftrightarrow> r = err_unclear \<or> r = err_try_again"
  using strftime_ymd_no_Error err_messages_contain_Error
  by (auto simp: parse_date_def shifted_date_def split: if_splits option.splits)

theorem parse_date_error_sentinel_witness:
  "parse_date \<lparr>year = 2026, month = 11, day = 11\<rparr> ''someday'' = Some err_unclear
   \<and> (sublist ''Error'' err_unclear \<longleftrightarrow> err_unclear = err_unclear \<or> err_unclear = err_try_again)"
proof -
  have h: "parse_date \<lparr>year = 2026, month = 11, day = 11\<rparr> ''someday'' = Some err_unclear"
    by (simp add: parse_date_def py_simps)
  show ?thesis
    using h parse_date_error_sentinel [OF h] by (rule conjI)
qed

text \<open>C26: on the last day of the calendar, \<open>tomorrow\<close> overflows and the
  \<open>except\<close> clause returns the second error message.\<close>

theorem parse_date_overflow:
  assumes "valid_date today" and "toordinal today = max_ordinal"
    and "\<not> sublist ''next'' (py_lower q)" and "sublist ''tomorrow'' (py_lower q)"
  shows "parse_date today q = Some err_try_again"
  using assms add_days_None [of today 1] by (auto simp: parse_date_def shifted_date_def)

theorem parse_date_overflow_witness:
  "valid_date \<lparr>year = 9999, month = 12, day = 31\<rparr>
   \<and> toordinal \<lparr>year = 9999, month = 12, day = 31\<rparr> = max_ordinal
   \<and> \<not> sublist ''next'' (py_lower ''tomorrow'') \<and> sublist ''tomorrow'' (py_lower ''tomorrow'')
   \<and> parse_date \<lparr>year = 9999, month = 12, day = 31\<rparr> ''tomorrow'' = Some err_try_again"
proof -
  have h1: "valid_date \<lparr>year = 9999, month = 12, day = 31\<rparr>"
    and h2: "toordinal \<lparr>year = 9999, month = 12, day = 31\<rparr> = max_ordinal"
    by (simp_all add: cal_simps)
  have h3: "\<not> sublist ''next'' (py_lower ''tomorrow'')"
    and h4: "sublist ''tomorrow'' (py_lower ''tomorrow'')"
    by (simp_all add: py_simps)
  show ?thesis
    using h1 h2 h3 h4 parse_date_overflow [OF h1 h2 h3 h4] by blast
qed

end
