(* ===== verification/Relay.thy ===== *)
theory Relay
  imports Py_Str
begin

text \<open>
  The chat relay of \<open>src/qachat.py\<close>: the module-level initialisation of the Gemini
  client (lines 11-17) and \<open>get_gemini_response\<close> (lines 19-24).  The hosted model is
  the environment: \<open>gemini_send hist q\<close> is what \<open>chat.send_message(q, stream=True)\<close>
  does on a chat whose history is \<open>hist\<close>, either raising (\<open>Inl\<close>) or returning a
  stream.  A stream is the list of chunks it yields, followed by the exception raised
  while iterating it, if any.  Chunks are told apart by what the script asks of them,
  \<open>hasattr(chunk, "text")\<close>: a response chunk with text, one without, or the plain
  \<open>dict\<close> of the fallback list, which has no attribute \<open>text\<close>.
\<close>

datatype exn =
    Api_exception pystr
  | Name_error pystr
  | Type_error pystr

datatype chunk =
    Text_chunk pystr
  | Textless_chunk
  | Dict_chunk "(pystr \<times> pystr) list"

type_synonym stream = "chunk list \<times> exn option"

text \<open>The Gemini chat object: only its history matters to the model.\<close>

record chat =
  history :: "(pystr \<times> pystr) list"

type_synonym gemini = "(pystr \<times> pystr) list \<Rightarrow> pystr \<Rightarrow> exn + stream"

fun has_text :: "chunk \<Rightarrow> bool" where
  "has_text (Text_chunk t) = True"
| "has_text Textless_chunk = False"
| "has_text (Dict_chunk kvs) = False"

fun chunk_text :: "chunk \<Rightarrow> pystr" where
  "chunk_text (Text_chunk t) = t"
| "chunk_text Textless_chunk = []"
| "chunk_text (Dict_chunk kvs) = []"

definition init_error_msg :: pystr where
  "init_error_msg = ''Error initializing Gemini model. Check your API key or setup.''"

definition relay_error_msg :: pystr where
  "relay_error_msg = ''Error fetching response from Gemini model. Please try again later.''"

text \<open>Lines 12-17: \<open>genai.configure\<close>, \<open>GenerativeModel\<close> and \<open>start_chat(history=[])\<close>
  succeed or fail together (\<open>api_ok\<close>); on failure the name \<open>chat\<close> stays unbound and
  the error is shown.  The result is the chat (if bound) and the message shown.\<close>

definition init_chat :: "bool \<Rightarrow> chat option \<times> pystr list" where
  "init_chat api_ok = (if api_ok then (Some \<lparr>history = []\<rparr>, []) else (None, [init_error_msg]))"

definition fallback_stream :: stream where
  "fallback_stream = ([Dict_chunk [(''text'', relay_error_msg)]], None)"

text \<open>Lines 19-24.  An unbound \<open>chat\<close> raises \<open>NameError\<close> inside the \<open>try\<close>, so it
  takes the same fallback as an exception of \<open>send_message\<close>.\<close>

definition get_gemini_response :: "gemini \<Rightarrow> chat option \<Rightarrow> pystr \<Rightarrow> stream" where
  "get_gemini_response send c question =
     (case c of
        None \<Rightarrow> fallback_stream
      | Some ch \<Rightarrow> (case send (history ch) question of Inl e \<Rightarrow> fallback_stream | Inr s \<Rightarrow> s))"

end
