(* ===== verification/Script.thy ===== *)
theory Script
  imports Router Validators Date_Parse Relay
begin

text \<open>
  One execution of the script body of \<open>src/qachat.py\<close> (lines 8-108), as Streamlit
  runs it on every interaction.  The process-wide \<open>st.session_state\<close> is the record
  \<open>session\<close>, whose fields are \<open>None\<close> while the key is absent; the values the
  widgets return in this run are the record \<open>ui\<close>; the outside world (credentials,
  the hosted model, the clock) is the record \<open>env\<close>.  A run returns the new session
  state, the page elements written in order, and whether the body completed or raised:
  mutations of \<open>session_state\<close> made before an exception persist, as Python's
  in-place \<open>list.append\<close> and item assignment do.
\<close>

record session =
  chat_history :: "(pystr \<times> pystr) list option"
  form_data :: "(pystr \<times> pystr) list option"

datatype element =
    Page_error pystr
  | Success pystr
  | Header pystr
  | Subheader pystr
  | Write pystr
  | Json "(pystr \<times> pystr) list"

datatype outcome = Completed | Raised exn

record ui =
  input :: pystr
  submit :: bool
  name :: pystr
  phone :: pystr
  email :: pystr
  date_query :: pystr
  submit_form :: bool

record env =
  api_ok :: bool
  gemini_send :: gemini
  now :: date

type_synonym run_result = "session \<times> element list \<times> outcome"

subsection \<open>Session state (lines 55-60)\<close>

definition hist_of :: "session \<Rightarrow> (pystr \<times> pystr) list" where
  "hist_of s = (case chat_history s of None \<Rightarrow> [] | Some h \<Rightarrow> h)"

definition init_session :: "session \<Rightarrow> session" where
  "init_session s =
     s\<lparr>chat_history := Some (hist_of s),
       form_data := Some (case form_data s of None \<Rightarrow> [] | Some f \<Rightarrow> f)\<rparr>"

subsection \<open>The form handler (lines 76-95)\<close>

definition form_error_name :: pystr where
  "form_error_name = ''Name is required.''"

definition form_error_phone :: pystr where
  "form_error_phone = ''Invalid phone number. Use a valid format (e.g., +1234567890).''"

definition form_error_email :: pystr where
  "form_error_email = ''Invalid email address.''"

definition success_msg :: pystr where
  "success_msg = ''Details submitted successfully!''"

text \<open>\<open>"Error" in date\<close> with \<open>date = None\<close> raises this \<open>TypeError\<close>.\<close>

definition none_not_iterable :: exn where
  "none_not_iterable = Type_error ''argument of type 'NoneType' is not iterable''"

definition form_record :: "pystr \<Rightarrow> pystr \<Rightarrow> pystr \<Rightarrow> pystr \<Rightarrow> (pystr \<times> pystr) list" where
  "form_record n p e d = [(''Name'', n), (''Phone'', p), (''Email'', e), (''Date'', d)]"

definition handle_form_submit :: "date \<Rightarrow> ui \<Rightarrow> session \<Rightarrow> run_result" where
  "handle_form_submit today u s =
     (let date = parse_date today (date_query u) in
      if py_strip (name u) = [] then (s, [Page_error form_error_name], Completed)
      else if \<not> validate_phone (phone u) then (s, [Page_error form_error_phone], Completed)
      else if \<not> validate_email (email u) then (s, [Page_error form_error_email], Completed)
      else (case date of
              None \<Rightarrow> (s, [], Raised none_not_iterable)
            | Some r \<Rightarrow>
                if sublist ''Error'' r then (s, [Page_error r], Completed)
                else (let record = form_record (name u) (phone u) (email u) r
                      in (s\<lparr>form_data := Some record\<rparr>,
                          [Success success_msg, Write ''Your Details:'', Json record], Completed))))"

subsection \<open>The chat turn (lines 97-104)\<close>

text \<open>The \<open>for chunk in response\<close> loop over the chunks the stream yields.\<close>

primrec relay_chunks ::
  "chunk list \<Rightarrow> (pystr \<times> pystr) list \<Rightarrow> element list \<Rightarrow> (pystr \<times> pystr) list \<times> element list" where
  "relay_chunks [] h outs = (h, outs)"
| "relay_chunks (c # cs) h outs =
     (if has_text c then relay_chunks cs (h @ [(''Bot'', chunk_text c)]) (outs @ [Write (chunk_text c)])
      else relay_chunks cs h outs)"

definition handle_chat_turn :: "gemini \<Rightarrow> chat option \<Rightarrow> pystr \<Rightarrow> session \<Rightarrow> run_result" where
  "handle_chat_turn send c question s =
     (let (chunks, err) = get_gemini_response send c question;
          (h, outs) = relay_chunks chunks (hist_of s @ [(''You'', question)]) [Subheader ''The response is:'']
      in (s\<lparr>chat_history := Some h\<rparr>, outs, case err of None \<Rightarrow> Completed | Some e \<Rightarrow> Raised e))"

subsection \<open>The script body\<close>

definition show_history :: "(pystr \<times> pystr) list \<Rightarrow> element list" where
  "show_history h = Subheader ''Chat History:'' # map (\<lambda>(role, text). Write (role @ '': '' @ text)) h"

text \<open>Lines 65-104: the branch on the \<open>Ask\<close> button.\<close>

definition handle_input :: "env \<Rightarrow> chat option \<Rightarrow> ui \<Rightarrow> session \<Rightarrow> run_result" where
  "handle_input e c u s =
     (if submit u \<and> input u \<noteq> [] then
        (if route (input u) = Form_path then
           (let (s', outs, oc) =
                  (if submit_form u then handle_form_submit (now e) u s else (s, [], Completed))
            in (s', Subheader ''Fill in your details:'' # outs, oc))
         else handle_chat_turn (gemini_send e) c (input u) s)
      else (s, [], Completed))"

definition run_script :: "env \<Rightarrow> ui \<Rightarrow> session \<Rightarrow> run_result" where
  "run_script e u s0 =
     (let (c, msgs) = init_chat (api_ok e);
          start = map Page_error msgs @ [Header ''Chatbot''];
          (s, outs, oc) = handle_input e c u (init_session s0)
      in (case oc of
            Completed \<Rightarrow> (s, start @ outs @ show_history (hist_of s), Completed)
          | Raised x \<Rightarrow> (s, start @ outs, Raised x)))"

subsection \<open>Evaluation lemmas\<close>

text \<open>The transcript entries a stream adds: one \<open>Bot\<close> entry per chunk with text.\<close>

definition bot_entries :: "chunk list \<Rightarrow> (pystr \<times> pystr) list" where
  "bot_entries cs = map (\<lambda>c. (''Bot'', chunk_text c)) (filter has_text cs)"

lemma relay_chunks_eq:
  "relay_chunks cs h outs =
     (h @ bot_entries cs, outs @ map (\<lambda>c. Write (chunk_text c)) (filter has_text cs))"
  by (induction cs arbitrary: h outs) (auto simp: bot_entries_def)

lemma hist_of_init_session [simp]: "hist_of (init_session s) = hist_of s"
  by (simp add: init_session_def hist_of_def)

lemma chat_history_init_session [simp]: "chat_history (init_session s) = Some (hist_of s)"
  by (simp add: init_session_def)

lemma handle_chat_turn_eq:
  "get_gemini_response send c q = (chunks, err) \<Longrightarrow>
     handle_chat_turn send c q s =
       (s\<lparr>chat_history := Some (hist_of s @ (''You'', q) # bot_entries chunks)\<rparr>,
        Subheader ''The response is:'' # map (\<lambda>c. Write (chunk_text c)) (filter has_text chunks),
        case err of None \<Rightarrow> Completed | Some e \<Rightarrow> Raised e)"
  by (simp add: handle_chat_turn_def relay_chunks_eq)

text \<open>The chat object a run creates always has an empty history.\<close>

lemma get_gemini_response_init:
  "get_gemini_response send (fst (init_chat ok)) q =
     (if ok then (case send [] q of Inl e \<Rightarrow> fallback_stream | Inr st \<Rightarrow> st) else fallback_stream)"
  by (simp add: get_gemini_response_def init_chat_def)

lemma run_script_eq:
  "init_chat (api_ok e) = (c, msgs) \<Longrightarrow> handle_input e c u (init_session s0) = (s, outs, oc) \<Longrightarrow>
     run_script e u s0 =
       (case oc of
          Completed \<Rightarrow> (s, map Page_error msgs @ Header ''Chatbot'' # outs @ show_history (hist_of s), Completed)
        | Raised x \<Rightarrow> (s, map Page_error msgs @ Header ''Chatbot'' # outs, Raised x))"
  by (simp add: run_script_def)

lemma handle_form_submit_history: "chat_history (fst (handle_form_submit today u s)) = chat_history s"
  by (simp add: handle_form_submit_def Let_def split: option.splits)

lemma hist_of_update [simp]: "hist_of (s\<lparr>chat_history := Some h\<rparr>) = h"
  by (simp add: hist_of_def)

lemma init_chat_ok: "api_ok e \<Longrightarrow> init_chat (api_ok e) = (Some \<lparr>history = []\<rparr>, [])"
  by (simp add: init_chat_def)

lemma init_chat_fail: "\<not> api_ok e \<Longrightarrow> init_chat (api_ok e) = (None, [init_error_msg])"
  by (simp add: init_chat_def)

text \<open>The chat branch of one run, for a model answer given as a stream.\<close>

lemma run_script_chat:
  assumes "submit u" "input u \<noteq> []" "route (input u) = Chat_path"
    and "init_chat (api_ok e) = (c, msgs)"
    and "get_gemini_response (gemini_send e) c (input u) = (chunks, err)"
  shows "run_script e u s =
    (let h = hist_of s @ (''You'', input u) # bot_entries chunks;
         outs = map Page_error msgs @ Header ''Chatbot'' # Subheader ''The response is:''
                # map (\<lambda>c. Write (chunk_text c)) (filter has_text chunks)
     in (case err of
           None \<Rightarrow> ((init_session s)\<lparr>chat_history := Some h\<rparr>, outs @ show_history h, Completed)
         | Some x \<Rightarrow> ((init_session s)\<lparr>chat_history := Some h\<rparr>, outs, Raised x)))"
proof -
  have "handle_input e c u (init_session s) =
      ((init_session s)\<lparr>chat_history := Some (hist_of s @ (''You'', input u) # bot_entries chunks)\<rparr>,
       Subheader ''The response is:'' # map (\<lambda>c. Write (chunk_text c)) (filter has_text chunks),
       case err of None \<Rightarrow> Completed | Some x \<Rightarrow> Raised x)"
    using assms(1-3) handle_chat_turn_eq [OF assms(5)] by (simp add: handle_input_def)
  from run_script_eq [OF assms(4) this] show ?thesis
    by (cases err) (simp_all add: Let_def)
qed

lemma Write_relay_error_not_in_history: "Write relay_error_msg \<notin> set (show_history h)"
proof -
  have "CHR '':'' \<notin> set relay_error_msg"
    by (simp add: relay_error_msg_def)
  then show ?thesis
    by (auto simp: show_history_def dest: arg_cong [where f = set])
qed

lemma fallback_stream_no_text: "filter has_text (fst fallback_stream) = []"
  by (simp add: fallback_stream_def)

text \<open>The form branch and the idle branch of one run.\<close>

lemma run_script_form:
  assumes "submit u" "input u \<noteq> []" "route (input u) = Form_path" "submit_form u"
    and "init_chat (api_ok e) = (c, msgs)"
    and "handle_form_submit (now e) u (init_session s) = (s', outs, oc)"
  shows "run_script e u s =
    (case oc of
       Completed \<Rightarrow> (s', map Page_error msgs @ Header ''Chatbot'' # Subheader ''Fill in your details:''
                      # outs @ show_history (hist_of s'), Completed)
     | Raised x \<Rightarrow> (s', map Page_error msgs @ Header ''Chatbot'' # Subheader ''Fill in your details:'' # outs,
                    Raised x))"
proof -
  have "handle_input e c u (init_session s) = (s', Subheader ''Fill in your details:'' # outs, oc)"
    using assms(1-4,6) by (simp add: handle_input_def)
  from run_script_eq [OF assms(5) this] show ?thesis
    by (cases oc) simp_all
qed

lemma run_script_no_handler:
  assumes "\<not> (submit u \<and> input u \<noteq> []) \<or> (route (input u) = Form_path \<and> \<not> submit_form u)"
    and "init_chat (api_ok e) = (c, msgs)"
  shows "run_script e u s =
    (init_session s,
     map Page_error msgs @ Header ''Chatbot''
       # (if submit u \<and> input u \<noteq> [] then [Subheader ''Fill in your details:''] else [])
       @ show_history (hist_of s),
     Completed)"
proof -
  have "handle_input e c u (init_session s) =
      (init_session s, if submit u \<and> input u \<noteq> [] then [Subheader ''Fill in your details:''] else [], Completed)"
    using assms(1) by (auto simp: handle_input_def)
  from run_script_eq [OF assms(2) this] show ?thesis
    by simp
qed

text \<open>What the form handler accepts: a non-blank name, a valid phone number and
  e-mail address, and a date query that resolves to a printed date.\<close>

lemma parse_date_ok_iff:
  "parse_date today q = Some r \<Longrightarrow> \<not> sublist ''Error'' r \<longleftrightarrow> (\<exists>d. r = strftime_ymd d)"
  using parse_date_Some_date strftime_ymd_no_Error by blast

lemma handle_form_submit_accept:
  assumes "\<not> list_all py_isspace (name u)" "validate_phone (phone u)" "validate_email (email u)"
    and "parse_date today (date_query u) = Some (strftime_ymd d)"
  shows "handle_form_submit today u s =
    (s\<lparr>form_data := Some (form_record (name u) (phone u) (email u) (strftime_ymd d))\<rparr>,
     [Success success_msg, Write ''Your Details:'', Json (form_record (name u) (phone u) (email u) (strftime_ymd d))],
     Completed)"
  using assms strftime_ymd_no_Error [of d]
  by (simp add: handle_form_submit_def py_strip_Nil_iff Let_def)

lemma handle_form_submit_reject:
  assumes "\<not> (\<not> list_all py_isspace (name u) \<and> validate_phone (phone u) \<and> validate_email (email u)
      \<and> (\<exists>d. parse_date today (date_query u) = Some (strftime_ymd d)))"
  shows "fst (handle_form_submit today u s) = s \<and> Success success_msg \<notin> set (fst (snd (handle_form_submit today u s)))"
  using assms parse_date_ok_iff [of today "date_query u"]
  by (auto simp: handle_form_submit_def py_strip_Nil_iff split: option.splits)

lemma Success_not_in_history: "Success x \<notin> set (show_history h)"
  by (auto simp: show_history_def)

text \<open>The session a run leaves, branch by branch.\<close>

lemma run_script_state:
  "fst (run_script e u s) =
     (if submit u \<and> input u \<noteq> [] then
        (if route (input u) = Form_path then
           (if submit_form u then fst (handle_form_submit (now e) u (init_session s)) else init_session s)
         else (init_session s)\<lparr>chat_history := Some (hist_of s @ (''You'', input u)
                 # bot_entries (fst (get_gemini_response (gemini_send e) (fst (init_chat (api_ok e))) (input u))))\<rparr>)
      else init_session s)"
proof -
  obtain c msgs where ic: "init_chat (api_ok e) = (c, msgs)"
    by (cases "init_chat (api_ok e)")
  consider (idle) "\<not> (submit u \<and> input u \<noteq> []) \<or> (route (input u) = Form_path \<and> \<not> submit_form u)"
    | (form) "submit u" "input u \<noteq> []" "route (input u) = Form_path" "submit_form u"
    | (chat) "submit u" "input u \<noteq> []" "route (input u) = Chat_path"
    by (cases "route (input u)") auto
  then show ?thesis
  proof cases
    case idle
    then show ?thesis
      using run_script_no_handler [OF idle ic, of s] by auto
  next
    case form
    obtain s' outs oc where "handle_form_submit (now e) u (init_session s) = (s', outs, oc)"
      by (cases "handle_form_submit (now e) u (init_session s)")
    with form show ?thesis
      using run_script_form [OF form ic] by (cases oc) simp_all
  next
    case chat
    obtain chunks err where "get_gemini_response (gemini_send e) c (input u) = (chunks, err)"
      by (cases "get_gemini_response (gemini_send e) c (input u)")
    with chat ic show ?thesis
      using run_script_chat [OF chat ic, of chunks err s] by (cases err) (simp_all add: Let_def)
  qed
qed

text \<open>A success message appears only when the form handler writes it.\<close>

lemma run_script_Success:
  "Success x \<in> set (fst (snd (run_script e u s))) \<longleftrightarrow>
     submit u \<and> input u \<noteq> [] \<and> route (input u) = Form_path \<and> submit_form u
     \<and> Success x \<in> set (fst (snd (handle_form_submit (now e) u (init_session s))))"
proof -
  obtain c msgs where ic: "init_chat (api_ok e) = (c, msgs)"
    by (cases "init_chat (api_ok e)")
  consider (idle) "\<not> (submit u \<and> input u \<noteq> []) \<or> (route (input u) = Form_path \<and> \<not> submit_form u)"
    | (form) "submit u" "input u \<noteq> []" "route (input u) = Form_path" "submit_form u"
    | (chat) "submit u" "input u \<noteq> []" "route (input u) = Chat_path"
    by (cases "route (input u)") auto
  then show ?thesis
  proof cases
    case idle
    then show ?thesis
      using run_script_no_handler [OF idle ic, of s] Success_not_in_history by auto
  next
    case form
    obtain s' outs oc where "handle_form_submit (now e) u (init_session s) = (s', outs, oc)"
      by (cases "handle_form_submit (now e) u (init_session s)")
    with form show ?thesis
      using run_script_form [OF form ic] Success_not_in_history by (cases oc) auto
  next
    case chat
    obtain chunks err where "get_gemini_response (gemini_send e) c (input u) = (chunks, err)"
      by (cases "get_gemini_response (gemini_send e) c (input u)")
    with chat show ?thesis
      using run_script_chat [OF chat ic, of chunks err s] Success_not_in_history
      by (cases err) (auto simp: Let_def)
  qed
qed

subsection \<open>Properties of a chat turn\<close>

text \<open>C9: a chat turn whose model call streams to the end appends the question as a
  \<open>You\<close> entry and then one \<open>Bot\<close> entry per chunk with text, in stream order, writes
  each chunk's text, and shows the whole transcript.\<close>

theorem chat_turn_transcript:
  assumes "submit u" "input u \<noteq> []" "route (input u) = Chat_path" "api_ok e"
    and "gemini_send e [] (input u) = Inr (chunks, None)"
  shows "run_script e u s =
    ((init_session s)\<lparr>chat_history := Some (hist_of s @ (''You'', input u) # bot_entries chunks)\<rparr>,
     Header ''Chatbot'' # Subheader ''The response is:'' # map (\<lambda>c. Write (chunk_text c)) (filter has_text chunks)
       @ show_history (hist_of s @ (''You'', input u) # bot_entries chunks),
     Completed)"
proof -
  have "get_gemini_response (gemini_send e) (Some \<lparr>history = []\<rparr>) (input u) = (chunks, None)"
    using assms(5) by (simp add: get_gemini_response_def)
  from run_script_chat [OF assms(1-3) init_chat_ok [OF assms(4)] this, where s = s] show ?thesis
    by (simp add: Let_def)
qed

definition demo_env :: "bool \<Rightarrow> gemini \<Rightarrow> env" where
  "demo_env ok send = \<lparr>api_ok = ok, gemini_send = send, now = \<lparr>year = 2026, month = 11, day = 11\<rparr>\<rparr>"

definition ask_ui :: "pystr \<Rightarrow> ui" where
  "ask_ui q = \<lparr>input = q, submit = True, name = [], phone = [], email = [], date_query = [],
     submit_form = False\<rparr>"

definition empty_session :: session where
  "empty_session = \<lparr>chat_history = None, form_data = None\<rparr>"

theorem chat_turn_transcript_witness:
  "submit (ask_ui ''What is AI?'') \<and> input (ask_ui ''What is AI?'') \<noteq> []
   \<and> route (input (ask_ui ''What is AI?'')) = Chat_path
   \<and> api_ok (demo_env True (\<lambda>h q. Inr ([Text_chunk ''AI is'', Textless_chunk, Text_chunk '' a field.''], None)))
   \<and> run_script (demo_env True (\<lambda>h q. Inr ([Text_chunk ''AI is'', Textless_chunk, Text_chunk '' a field.''], None)))
       (ask_ui ''What is AI?'') empty_session =
     ((init_session empty_session)\<lparr>chat_history := Some (hist_of empty_session @ (''You'', input (ask_ui ''What is AI?''))
         # bot_entries [Text_chunk ''AI is'', Textless_chunk, Text_chunk '' a field.''])\<rparr>,
      Header ''Chatbot'' # Subheader ''The response is:''
        # map (\<lambda>c. Write (chunk_text c)) (filter has_text [Text_chunk ''AI is'', Textless_chunk, Text_chunk '' a field.''])
        @ show_history (hist_of empty_session @ (''You'', input (ask_ui ''What is AI?''))
            # bot_entries [Text_chunk ''AI is'', Textless_chunk, Text_chunk '' a field.'']),
      Completed)"
proof -
  let ?e = "demo_env True (\<lambda>h q. Inr ([Text_chunk ''AI is'', Textless_chunk, Text_chunk '' a field.''], None))"
  have h1: "submit (ask_ui ''What is AI?'')" and h2: "input (ask_ui ''What is AI?'') \<noteq> []"
    and h4: "api_ok ?e"
    and h5: "gemini_send ?e [] (input (ask_ui ''What is AI?''))
      = Inr ([Text_chunk ''AI is'', Textless_chunk, Text_chunk '' a field.''], None)"
    by (simp_all add: ask_ui_def demo_env_def)
  have h3: "route (input (ask_ui ''What is AI?'')) = Chat_path"
    by (simp add: ask_ui_def route_def py_simps)
  show ?thesis
    using h1 h2 h3 h4 chat_turn_transcript [OF h1 h2 h3 h4 h5] by blast
qed

text \<open>C10: when the model cannot be reached (initialisation failed, or
  \<open>send_message\<close> raised), the turn appends only the \<open>You\<close> entry: the fallback
  chunk is a \<open>dict\<close>, \<open>hasattr(chunk, "text")\<close> is false for it, so the fixed
  error message is neither written nor added to the transcript.\<close>

theorem relay_failure_transcript:
  assumes "submit u" "input u \<noteq> []" "route (input u) = Chat_path"
    and "\<not> api_ok e \<or> (\<exists>x. gemini_send e [] (input u) = Inl x)"
  shows "\<exists>outs. run_script e u s =
      ((init_session s)\<lparr>chat_history := Some (hist_of s @ [(''You'', input u)])\<rparr>, outs, Completed)
    \<and> Write relay_error_msg \<notin> set outs"
proof -
  obtain c msgs where ic: "init_chat (api_ok e) = (c, msgs)"
    by (cases "init_chat (api_ok e)")
  have gr: "get_gemini_response (gemini_send e) c (input u) = fallback_stream"
    using assms(4) ic by (auto simp: get_gemini_response_def init_chat_def split: if_splits)
  have "Write relay_error_msg \<notin> set (map Page_error msgs)"
    by auto
  then show ?thesis
    using run_script_chat [OF assms(1-3) ic gr [unfolded fallback_stream_def], where s = s]
      Write_relay_error_not_in_history
    by (simp add: Let_def bot_entries_def)
qed

theorem relay_failure_transcript_witness:
  "submit (ask_ui ''Hello'') \<and> input (ask_ui ''Hello'') \<noteq> []
   \<and> route (input (ask_ui ''Hello'')) = Chat_path
   \<and> \<not> api_ok (demo_env False (\<lambda>h q. Inr ([], None)))
   \<and> (\<exists>outs. run_script (demo_env False (\<lambda>h q. Inr ([], None))) (ask_ui ''Hello'') empty_session =
      ((init_session empty_session)\<lparr>chat_history := Some (hist_of empty_session @ [(''You'', input (ask_ui ''Hello''))])\<rparr>,
       outs, Completed)
    \<and> Write relay_error_msg \<notin> set outs)"
proof -
  let ?e = "demo_env False (\<lambda>h q. Inr ([], None))"
  have h1: "submit (ask_ui ''Hello'')" and h2: "input (ask_ui ''Hello'') \<noteq> []"
    and h4: "\<not> api_ok ?e"
    by (simp_all add: ask_ui_def demo_env_def)
  have h3: "route (input (ask_ui ''Hello'')) = Chat_path"
    by (simp add: ask_ui_def route_def py_simps)
  show ?thesis
    using h1 h2 h3 h4 relay_failure_transcript [OF h1 h2 h3 disjI1 [OF h4]] by blast
qed

text \<open>C21: every run creates a fresh chat with an empty history, so the model never
  sees earlier turns: replacing the model by one that ignores the history it is given
  changes nothing in any run.\<close>

theorem run_script_ignores_model_history:
  "run_script e u s = run_script (e\<lparr>gemini_send := (\<lambda>h q. gemini_send e [] q)\<rparr>) u s"
  by (cases "api_ok e")
     (simp_all add: run_script_def handle_input_def handle_chat_turn_def get_gemini_response_def
        init_chat_def)

text \<open>C23: an exception raised while the stream is iterated ends the run, and the
  entries appended before it (the question and the chunks already received) stay in the
  transcript; the transcript is not displayed in that run.\<close>

theorem stream_exception_keeps_partial_transcript:
  assumes "submit u" "input u \<noteq> []" "route (input u) = Chat_path" "api_ok e"
    and "gemini_send e [] (input u) = Inr (chunks, Some x)"
  shows "run_script e u s =
    ((init_session s)\<lparr>chat_history := Some (hist_of s @ (''You'', input u) # bot_entries chunks)\<rparr>,
     Header ''Chatbot'' # Subheader ''The response is:'' # map (\<lambda>c. Write (chunk_text c)) (filter has_text chunks),
     Raised x)"
proof -
  have "get_gemini_response (gemini_send e) (Some \<lparr>history = []\<rparr>) (input u) = (chunks, Some x)"
    using assms(5) by (simp add: get_gemini_response_def)
  from run_script_chat [OF assms(1-3) init_chat_ok [OF assms(4)] this, where s = s] show ?thesis
    by (simp add: Let_def)
qed

theorem stream_exception_keeps_partial_transcript_witness:
  "submit (ask_ui ''Hi'') \<and> input (ask_ui ''Hi'') \<noteq> [] \<and> route (input (ask_ui ''Hi'')) = Chat_path
   \<and> api_ok (demo_env True (\<lambda>h q. Inr ([Text_chunk ''Hel''], Some (Api_exception ''reset''))))
   \<and> run_script (demo_env True (\<lambda>h q. Inr ([Text_chunk ''Hel''], Some (Api_exception ''reset''))))
       (ask_ui ''Hi'') empty_session =
    ((init_session empty_session)\<lparr>chat_history := Some (hist_of empty_session @ (''You'', input (ask_ui ''Hi''))
        # bot_entries [Text_chunk ''Hel''])\<rparr>,
     Header ''Chatbot'' # Subheader ''The response is:''
       # map (\<lambda>c. Write (chunk_text c)) (filter has_text [Text_chunk ''Hel'']),
     Raised (Api_exception ''reset''))"
proof -
  let ?e = "demo_env True (\<lambda>h q. Inr ([Text_chunk ''Hel''], Some (Api_exception ''reset'')))"
  have h1: "submit (ask_ui ''Hi'')" and h2: "input (ask_ui ''Hi'') \<noteq> []" and h4: "api_ok ?e"
    and h5: "gemini_send ?e [] (input (ask_ui ''Hi'')) = Inr ([Text_chunk ''Hel''], Some (Api_exception ''reset''))"
    by (simp_all add: ask_ui_def demo_env_def)
  have h3: "route (input (ask_ui ''Hi'')) = Chat_path"
    by (simp add: ask_ui_def route_def py_simps)
  show ?thesis
    using h1 h2 h3 h4 stream_exception_keeps_partial_transcript [OF h1 h2 h3 h4 h5] by blast
qed

subsection \<open>Properties of the form flow\<close>

text \<open>C7: a run shows \<open>Details submitted successfully!\<close> exactly when the form
  branch runs with its submit button pressed and all four checks pass: a non-blank
  name, a valid phone number, a valid e-mail address and a date query that resolves
  to a date.\<close>

theorem form_success_iff:
  "Success success_msg \<in> set (fst (snd (run_script e u s))) \<longleftrightarrow>
     submit u \<and> input u \<noteq> [] \<and> route (input u) = Form_path \<and> submit_form u
     \<and> \<not> list_all py_isspace (name u) \<and> validate_phone (phone u) \<and> validate_email (email u)
     \<and> (\<exists>d. parse_date (now e) (date_query u) = Some (strftime_ymd d))"
proof (cases "\<not> list_all py_isspace (name u) \<and> validate_phone (phone u) \<and> validate_email (email u)
    \<and> (\<exists>d. parse_date (now e) (date_query u) = Some (strftime_ymd d))")
  case True
  then obtain d where "\<not> list_all py_isspace (name u)" "validate_phone (phone u)"
      "validate_email (email u)" "parse_date (now e) (date_query u) = Some (strftime_ymd d)"
    by blast
  then have "Success success_msg \<in> set (fst (snd (handle_form_submit (now e) u (init_session s))))"
    by (simp add: handle_form_submit_accept)
  with True show ?thesis
    by (simp add: run_script_Success)
next
  case False
  then have "Success success_msg \<notin> set (fst (snd (handle_form_submit (now e) u (init_session s))))"
    using handle_form_submit_reject by blast
  with False show ?thesis
    by (simp add: run_script_Success)
qed

text \<open>C8: the stored form record changes only when every field has passed its check,
  and then it is the record of exactly the submitted values and the resolved date; a
  partial record is never stored.\<close>

theorem form_record_stored_only_when_valid:
  "form_data (fst (run_script e u s)) = form_data (init_session s)
   \<or> (submit u \<and> input u \<noteq> [] \<and> route (input u) = Form_path \<and> submit_form u
      \<and> \<not> list_all py_isspace (name u) \<and> validate_phone (phone u) \<and> validate_email (email u)
      \<and> (\<exists>d. parse_date (now e) (date_query u) = Some (strftime_ymd d)
           \<and> form_data (fst (run_script e u s)) = Some (form_record (name u) (phone u) (email u) (strftime_ymd d))))"
proof (cases "\<not> list_all py_isspace (name u) \<and> validate_phone (phone u) \<and> validate_email (email u)
    \<and> (\<exists>d. parse_date (now e) (date_query u) = Some (strftime_ymd d))")
  case True
  then obtain d where "\<not> list_all py_isspace (name u)" "validate_phone (phone u)"
      "validate_email (email u)" "parse_date (now e) (date_query u) = Some (strftime_ymd d)"
    by blast
  then show ?thesis
    by (simp add: run_script_state handle_form_submit_accept) blast
next
  case False
  then have "fst (handle_form_submit (now e) u (init_session s)) = init_session s"
    using handle_form_submit_reject by blast
  then show ?thesis
    by (simp add: run_script_state)
qed

text \<open>C18: with a valid name, phone number and e-mail address, a date query such as
  \<open>next friday\<close> makes \<open>parse_date\<close> return \<open>None\<close>, and the test
  \<open>"Error" in date\<close> raises \<open>TypeError\<close>: the run aborts without a message for the
  user and nothing is stored.\<close>

theorem form_next_without_monday_raises:
  assumes "submit u" "input u \<noteq> []" "route (input u) = Form_path" "submit_form u"
    and "\<not> list_all py_isspace (name u)" "validate_phone (phone u)" "validate_email (email u)"
    and "sublist ''next'' (py_lower (date_query u))" "\<not> sublist ''monday'' (py_lower (date_query u))"
  shows "run_script e u s =
    (init_session s, map Page_error (snd (init_chat (api_ok e))) @ [Header ''Chatbot'', Subheader ''Fill in your details:''],
     Raised none_not_iterable)"
proof -
  have "handle_form_submit (now e) u (init_session s) = (init_session s, [], Raised none_not_iterable)"
    using assms(5-9) by (simp add: handle_form_submit_def py_strip_Nil_iff parse_date_def)
  from run_script_form [OF assms(1-4) prod.collapse [symmetric] this] show ?thesis
    by simp
qed

definition form_ui :: "pystr \<Rightarrow> pystr \<Rightarrow> pystr \<Rightarrow> pystr \<Rightarrow> pystr \<Rightarrow> ui" where
  "form_ui q n p m d = \<lparr>input = q, submit = True, name = n, phone = p, email = m, date_query = d,
     submit_form = True\<rparr>"

theorem form_next_without_monday_raises_witness:
  "submit (form_ui ''Call me'' ''Ann'' ''+12345678901'' ''ann@example.org'' ''next friday'')
   \<and> input (form_ui ''Call me'' ''Ann'' ''+12345678901'' ''ann@example.org'' ''next friday'') \<noteq> []
   \<and> route (input (form_ui ''Call me'' ''Ann'' ''+12345678901'' ''ann@example.org'' ''next friday'')) = Form_path
   \<and> submit_form (form_ui ''Call me'' ''Ann'' ''+12345678901'' ''ann@example.org'' ''next friday'')
   \<and> \<not> list_all py_isspace (name (form_ui ''Call me'' ''Ann'' ''+12345678901'' ''ann@example.org'' ''next friday''))
   \<and> validate_phone (phone (form_ui ''Call me'' ''Ann'' ''+12345678901'' ''ann@example.org'' ''next friday''))
   \<and> validate_email (email (form_ui ''Call me'' ''Ann'' ''+12345678901'' ''ann@example.org'' ''next friday''))
   \<and> sublist ''next'' (py_lower (date_query (form_ui ''Call me'' ''Ann'' ''+12345678901'' ''ann@example.org'' ''next friday'')))
   \<and> \<not> sublist ''monday'' (py_lower (date_query (form_ui ''Call me'' ''Ann'' ''+12345678901'' ''ann@example.org'' ''next friday'')))
   \<and> run_script (demo_env True (\<lambda>h q. Inr ([], None)))
       (form_ui ''Call me'' ''Ann'' ''+12345678901'' ''ann@example.org'' ''next friday'') empty_session =
     (init_session empty_session,
      map Page_error (snd (init_chat (api_ok (demo_env True (\<lambda>h q. Inr ([], None))))))
        @ [Header ''Chatbot'', Subheader ''Fill in your details:''],
      Raised none_not_iterable)"
proof -
  let ?u = "form_ui ''Call me'' ''Ann'' ''+12345678901'' ''ann@example.org'' ''next friday''"
  have h1: "submit ?u" and h2: "input ?u \<noteq> []" and h4: "submit_form ?u"
    by (simp_all add: form_ui_def)
  have h3: "route (input ?u) = Form_path"
    and h5: "\<not> list_all py_isspace (name ?u)"
    and h8: "sublist ''next'' (py_lower (date_query ?u))"
    and h9: "\<not> sublist ''monday'' (py_lower (date_query ?u))"
    by (simp_all add: form_ui_def route_def py_simps)
  have h6: "validate_phone (phone ?u)" and h7: "validate_email (email ?u)"
    by (simp_all add: form_ui_def) code_simp+
  show ?thesis
    using h1 h2 h3 h4 h5 h6 h7 h8 h9
      form_next_without_monday_raises [OF h1 h2 h3 h4 h5 h6 h7 h8 h9] by blast
qed

text \<open>C24: only a chat turn changes the transcript; the form branch, and a run in
  which the button was not pressed, leave it as it was.\<close>

theorem transcript_changes_only_on_chat_turn:
  "\<not> (submit u \<and> input u \<noteq> [] \<and> route (input u) = Chat_path) \<Longrightarrow>
     chat_history (fst (run_script e u s)) = Some (hist_of s)"
  by (cases "route (input u)") (auto simp: run_script_state handle_form_submit_history)

theorem transcript_changes_only_on_chat_turn_witness:
  "route (input (form_ui ''Call me'' ''Ann'' [] [] [])) = Form_path
   \<and> chat_history (fst (run_script (demo_env True (\<lambda>h q. Inr ([], None))) (form_ui ''Call me'' ''Ann'' [] [] [])
       \<lparr>chat_history = Some [(''You'', ''Hi'')], form_data = None\<rparr>))
     = Some (hist_of \<lparr>chat_history = Some [(''You'', ''Hi'')], form_data = None\<rparr>)"
proof -
  have r: "route (input (form_ui ''Call me'' ''Ann'' [] [] [])) = Form_path"
    by (simp add: form_ui_def route_def py_simps)
  then have h: "\<not> (submit (form_ui ''Call me'' ''Ann'' [] [] []) \<and> input (form_ui ''Call me'' ''Ann'' [] [] []) \<noteq> []
       \<and> route (input (form_ui ''Call me'' ''Ann'' [] [] [])) = Chat_path)"
    by simp
  show ?thesis
    using r transcript_changes_only_on_chat_turn [OF h] by (rule conjI)
qed

text \<open>C25: re-submitting the form with the same values stores the same record again
  and does not grow the transcript.\<close>

theorem form_resubmit_idempotent:
  "route (input u) = Form_path \<Longrightarrow>
     form_data (fst (run_script e u (fst (run_script e u s)))) = form_data (fst (run_script e u s))
     \<and> chat_history (fst (run_script e u (fst (run_script e u s)))) = chat_history (fst (run_script e u s))"
proof (cases "\<not> list_all py_isspace (name u) \<and> validate_phone (phone u) \<and> validate_email (email u)
    \<and> (\<exists>d. parse_date (now e) (date_query u) = Some (strftime_ymd d))")
  case True
  then obtain d where "\<not> list_all py_isspace (name u)" "validate_phone (phone u)"
      "validate_email (email u)" "parse_date (now e) (date_query u) = Some (strftime_ymd d)"
    by blast
  moreover assume "route (input u) = Form_path"
  ultimately show ?thesis
    by (simp add: run_script_state handle_form_submit_accept init_session_def hist_of_def)
next
  case False
  then have "fst (handle_form_submit (now e) u t) = t" for t
    using handle_form_submit_reject by blast
  moreover assume "route (input u) = Form_path"
  ultimately show ?thesis
    by (simp add: run_script_state init_session_def hist_of_def)
qed

theorem form_resubmit_idempotent_witness:
  "route (input (form_ui ''Book an appointment'' ''Ann'' ''1234567890'' ''a@b.co'' ''tomorrow'')) = Form_path
   \<and> form_data (fst (run_script (demo_env True (\<lambda>h q. Inr ([], None)))
        (form_ui ''Book an appointment'' ''Ann'' ''1234567890'' ''a@b.co'' ''tomorrow'')
        (fst (run_script (demo_env True (\<lambda>h q. Inr ([], None)))
          (form_ui ''Book an appointment'' ''Ann'' ''1234567890'' ''a@b.co'' ''tomorrow'') empty_session))))
     = form_data (fst (run_script (demo_env True (\<lambda>h q. Inr ([], None)))
          (form_ui ''Book an appointment'' ''Ann'' ''1234567890'' ''a@b.co'' ''tomorrow'') empty_session))
   \<and> chat_history (fst (run_script (demo_env True (\<lambda>h q. Inr ([], None)))
        (form_ui ''Book an appointment'' ''Ann'' ''1234567890'' ''a@b.co'' ''tomorrow'')
        (fst (run_script (demo_env True (\<lambda>h q. Inr ([], None)))
          (form_ui ''Book an appointment'' ''Ann'' ''1234567890'' ''a@b.co'' ''tomorrow'') empty_session))))
     = chat_history (fst (run_script (demo_env True (\<lambda>h q. Inr ([], None)))
          (form_ui ''Book an appointment'' ''Ann'' ''1234567890'' ''a@b.co'' ''tomorrow'') empty_session))"
proof -
  have h: "route (input (form_ui ''Book an appointment'' ''Ann'' ''1234567890'' ''a@b.co'' ''tomorrow'')) = Form_path"
    by (simp add: form_ui_def route_def py_simps)
  show ?thesis
    using h form_resubmit_idempotent [OF h] by blast
qed

end
