(* ===== verification/Runtime.thy ===== *)
theory Runtime
  imports Script
begin

text \<open>
  Streamlit's execution model around \<open>src/qachat.py\<close>: every user interaction re-runs
  the whole script, with \<open>st.session_state\<close> kept between runs and the widgets
  returning the values of this interaction.  \<open>st.button\<close> returns \<open>True\<close> only in the
  run triggered by its own click, and \<open>st.form_submit_button\<close> only in the run triggered
  by submitting its form; the text input keyed \<open>input\<close> keeps its value.  An
  interaction is an \<open>event\<close>: clicking \<open>Ask the question\<close> with a text, submitting
  the form with its four fields, or editing the text without clicking.  This theory
  is the framework's side of the interface; \<open>run_script\<close> of theory \<open>Script\<close> is the
  program's side.
\<close>

datatype event =
    Ask pystr
  | Submit_form pystr pystr pystr pystr
  | Edit pystr

record app =
  sess :: session
  input_box :: pystr

definition initial_app :: app where
  "initial_app = \<lparr>sess = \<lparr>chat_history = None, form_data = None\<rparr>, input_box = []\<rparr>"

text \<open>The widget values of the run an event triggers (lines 62-63 and 69-74).\<close>

fun ui_of :: "pystr \<Rightarrow> event \<Rightarrow> ui" where
  "ui_of box (Ask q) =
     \<lparr>input = q, submit = True, name = [], phone = [], email = [], date_query = [], submit_form = False\<rparr>"
| "ui_of box (Submit_form n p m d) =
     \<lparr>input = box, submit = False, name = n, phone = p, email = m, date_query = d, submit_form = True\<rparr>"
| "ui_of box (Edit q) =
     \<lparr>input = q, submit = False, name = [], phone = [], email = [], date_query = [], submit_form = False\<rparr>"

definition app_step :: "env \<Rightarrow> event \<Rightarrow> app \<Rightarrow> app \<times> element list \<times> outcome" where
  "app_step e ev a =
     (let u = ui_of (input_box a) ev;
          (s, outs, oc) = run_script e u (sess a)
      in (\<lparr>sess = s, input_box = input u\<rparr>, outs, oc))"

inductive reachable :: "app \<Rightarrow> bool" where
  start: "reachable initial_app"
| step: "reachable a \<Longrightarrow> reachable (fst (app_step e ev a))"

fun app_run :: "(env \<times> event) list \<Rightarrow> app \<Rightarrow> app" where
  "app_run [] a = a"
| "app_run ((e, ev) # evs) a = app_run evs (fst (app_step e ev a))"

text \<open>The transcript entries one interaction adds.\<close>

fun turn_entries :: "env \<Rightarrow> event \<Rightarrow> (pystr \<times> pystr) list" where
  "turn_entries e (Ask q) =
     (if q \<noteq> [] \<and> route q = Chat_path
      then (''You'', q) # bot_entries (fst (get_gemini_response (gemini_send e) (fst (init_chat (api_ok e))) q))
      else [])"
| "turn_entries e (Submit_form n p m d) = []"
| "turn_entries e (Edit q) = []"

text \<open>The interactions that are chat turns: a click with a non-empty question the
  router sends to the chat.\<close>

fun chat_turn_event :: "event \<Rightarrow> bool" where
  "chat_turn_event (Ask q) = (q \<noteq> [] \<and> route q = Chat_path)"
| "chat_turn_event (Submit_form n p m d) = False"
| "chat_turn_event (Edit q) = False"

lemma app_step_eq:
  "fst (app_step e ev a) =
     \<lparr>sess = fst (run_script e (ui_of (input_box a) ev) (sess a)), input_box = input (ui_of (input_box a) ev)\<rparr>"
  "fst (snd (app_step e ev a)) = fst (snd (run_script e (ui_of (input_box a) ev) (sess a)))"
  by (simp_all add: app_step_def Let_def case_prod_beta)

text \<open>No interaction presses both buttons: the form's submit reruns the script with
  the \<open>Ask\<close> button released.\<close>

lemma ui_of_not_both: "\<not> (submit (ui_of b ev) \<and> submit_form (ui_of b ev))"
  by (cases ev) simp_all

lemma form_data_run_ui_of:
  "form_data (fst (run_script e (ui_of b ev) s)) = form_data (init_session s)"
  using ui_of_not_both [of b ev] by (auto simp: run_script_state)

lemma route_not_Form: "route q \<noteq> Form_path \<longleftrightarrow> route q = Chat_path"
  by (cases "route q") simp_all

lemma hist_of_app_step:
  "hist_of (sess (fst (app_step e ev a))) = hist_of (sess a) @ turn_entries e ev"
  by (cases ev) (auto simp: app_step_eq run_script_state route_not_Form)

lemma bot_entries_map: "bot_entries cs = map (\<lambda>b. (''Bot'', b)) (map chunk_text (filter has_text cs))"
  by (simp add: bot_entries_def)

text \<open>The transcript as the abstract list of turns it records: each turn is a question
  and the texts answered to it.\<close>

definition turns_transcript :: "(pystr \<times> pystr list) list \<Rightarrow> (pystr \<times> pystr) list" where
  "turns_transcript ts = concat (map (\<lambda>(q, bs). (''You'', q) # map (\<lambda>b. (''Bot'', b)) bs) ts)"

lemma turn_entries_cases:
  "turn_entries e ev = [] \<or>
     (\<exists>q bs. ev = Ask q \<and> q \<noteq> [] \<and> route q = Chat_path \<and> turn_entries e ev = turns_transcript [(q, bs)])"
proof (cases ev)
  case (Ask q)
  have "turn_entries e (Ask q) = (if q \<noteq> [] \<and> route q = Chat_path then turns_transcript
      [(q, map chunk_text (filter has_text (fst (get_gemini_response (gemini_send e) (fst (init_chat (api_ok e))) q))))]
      else [])"
    by (simp add: turns_transcript_def bot_entries_map)
  with Ask show ?thesis
    by auto
qed simp_all

lemma run_script_prefix:
  "\<exists>rest. fst (snd (run_script e u s)) = map Page_error (snd (init_chat (api_ok e))) @ Header ''Chatbot'' # rest"
  by (auto simp: run_script_def split: prod.splits outcome.splits)

abbreviation you_count :: "(pystr \<times> pystr) list \<Rightarrow> nat" where
  "you_count h \<equiv> length (filter (\<lambda>(r, t). r = ''You'') h)"

lemma you_count_turn_entries: "you_count (turn_entries e ev) = (if chat_turn_event ev then 1 else 0)"
  by (cases ev) (auto simp: bot_entries_def)

subsection \<open>Properties of the rerun model\<close>

text \<open>C1: no interaction ever shows the success message: the form's submit button
  triggers a run in which \<open>Ask the question\<close> is not pressed, so the form handler,
  nested under that button, never runs with \<open>submit_form\<close> true.\<close>

theorem app_step_never_succeeds: "Success success_msg \<notin> set (fst (snd (app_step e ev a)))"
  unfolding app_step_eq run_script_Success using ui_of_not_both [of "input_box a" ev] by blast

text \<open>C2: in every state the application can reach, no form record has been stored:
  the session's \<open>form_data\<close> is absent or the empty dictionary.\<close>

theorem reachable_form_data_empty:
  "reachable a \<Longrightarrow> form_data (sess a) = None \<or> form_data (sess a) = Some []"
proof (induction rule: reachable.induct)
  case start
  show ?case
    by (simp add: initial_app_def)
next
  case (step a e ev)
  then show ?case
    by (auto simp: app_step_eq form_data_run_ui_of init_session_def)
qed

theorem reachable_form_data_empty_witness:
  "reachable (fst (app_step (demo_env True (\<lambda>h q. Inr ([], None))) (Submit_form ''Ann'' ''1234567890'' ''a@b.co'' ''today'')
     (fst (app_step (demo_env True (\<lambda>h q. Inr ([], None))) (Ask ''Call me'') initial_app))))
   \<and> (form_data (sess (fst (app_step (demo_env True (\<lambda>h q. Inr ([], None))) (Submit_form ''Ann'' ''1234567890'' ''a@b.co'' ''today'')
        (fst (app_step (demo_env True (\<lambda>h q. Inr ([], None))) (Ask ''Call me'') initial_app))))) = None
      \<or> form_data (sess (fst (app_step (demo_env True (\<lambda>h q. Inr ([], None))) (Submit_form ''Ann'' ''1234567890'' ''a@b.co'' ''today'')
        (fst (app_step (demo_env True (\<lambda>h q. Inr ([], None))) (Ask ''Call me'') initial_app))))) = Some [])"
proof -
  have r: "reachable (fst (app_step (demo_env True (\<lambda>h q. Inr ([], None))) (Submit_form ''Ann'' ''1234567890'' ''a@b.co'' ''today'')
     (fst (app_step (demo_env True (\<lambda>h q. Inr ([], None))) (Ask ''Call me'') initial_app))))"
    by (intro reachable.step reachable.start)
  show ?thesis
    using r reachable_form_data_empty [OF r] by (rule conjI)
qed

text \<open>C3: over any sequence of interactions the transcript grows by exactly the
  entries of the chat turns, in the order the turns happen: each question followed by
  the texts answered to it, nothing reordered or lost.\<close>

theorem app_run_transcript:
  "hist_of (sess (app_run evs a)) = hist_of (sess a) @ concat (map (\<lambda>(e, ev). turn_entries e ev) evs)"
  by (induction evs arbitrary: a) (auto simp: hist_of_app_step)

text \<open>C5: in every reachable state the transcript is a sequence of turns, each a
  non-empty chat question (one the router sends to the chat path) followed by the
  answers to it.\<close>

theorem reachable_transcript_turns:
  "reachable a \<Longrightarrow>
     \<exists>ts. hist_of (sess a) = turns_transcript ts \<and> list_all (\<lambda>(q, bs). q \<noteq> [] \<and> route q = Chat_path) ts"
proof (induction rule: reachable.induct)
  case start
  show ?case
    by (auto simp: initial_app_def hist_of_def turns_transcript_def intro: exI [of _ "[]"])
next
  case (step a e ev)
  then obtain ts where ts: "hist_of (sess a) = turns_transcript ts"
      "list_all (\<lambda>(q, bs). q \<noteq> [] \<and> route q = Chat_path) ts"
    by blast
  from turn_entries_cases [of e ev] show ?case
  proof
    assume "turn_entries e ev = []"
    with ts show ?thesis
      by (auto simp: hist_of_app_step)
  next
    assume "\<exists>q bs. ev = Ask q \<and> q \<noteq> [] \<and> route q = Chat_path \<and> turn_entries e ev = turns_transcript [(q, bs)]"
    then obtain q bs where "q \<noteq> []" "route q = Chat_path" "turn_entries e ev = turns_transcript [(q, bs)]"
      by blast
    with ts show ?thesis
      by (auto simp: hist_of_app_step turns_transcript_def intro!: exI [of _ "ts @ [(q, bs)]"])
  qed
qed

theorem reachable_transcript_turns_witness:
  "reachable (fst (app_step (demo_env True (\<lambda>h q. Inr ([Text_chunk ''Hello''], None))) (Ask ''Hi'') initial_app))
   \<and> (\<exists>ts. hist_of (sess (fst (app_step (demo_env True (\<lambda>h q. Inr ([Text_chunk ''Hello''], None))) (Ask ''Hi'') initial_app)))
          = turns_transcript ts \<and> list_all (\<lambda>(q, bs). q \<noteq> [] \<and> route q = Chat_path) ts)"
proof -
  have r: "reachable (fst (app_step (demo_env True (\<lambda>h q. Inr ([Text_chunk ''Hello''], None))) (Ask ''Hi'') initial_app))"
    by (intro reachable.step reachable.start)
  show ?thesis
    using r reachable_transcript_turns [OF r] by (rule conjI)
qed

text \<open>C22: the client set-up of lines 11-17 runs again in every rerun, so with a
  failing set-up every interaction opens with the initialisation error, ahead of the
  page header; it is not reported once per session.\<close>

theorem init_failure_every_run:
  "\<not> api_ok e \<Longrightarrow> take 2 (fst (snd (app_step e ev a))) = [Page_error init_error_msg, Header ''Chatbot'']"
  using run_script_prefix [of e "ui_of (input_box a) ev" "sess a"]
  by (auto simp: app_step_eq init_chat_def)

theorem init_failure_every_run_witness:
  "\<not> api_ok (demo_env False (\<lambda>h q. Inr ([], None)))
   \<and> take 2 (fst (snd (app_step (demo_env False (\<lambda>h q. Inr ([], None))) (Edit ''hello'') initial_app)))
     = [Page_error init_error_msg, Header ''Chatbot'']"
proof -
  have n: "\<not> api_ok (demo_env False (\<lambda>h q. Inr ([], None)))"
    by (simp add: demo_env_def)
  show ?thesis
    using n init_failure_every_run [OF n] by (rule conjI)
qed

text \<open>C4: after any sequence of interactions from the first page load, the
  transcript holds exactly one \<open>You\<close> entry per chat turn: answers are never
  recorded as questions, and form submissions, edits and form-routed questions
  add none.\<close>

theorem app_run_you_count:
  "you_count (hist_of (sess (app_run evs initial_app))) = length (filter (\<lambda>(e, ev). chat_turn_event ev) evs)"
proof -
  have "you_count (hist_of (sess (app_run evs a))) = you_count (hist_of (sess a)) + length (filter (\<lambda>(e, ev). chat_turn_event ev) evs)"
    for a
    by (induction evs arbitrary: a) (auto simp: hist_of_app_step you_count_turn_entries)
  then show ?thesis
    by (simp add: initial_app_def hist_of_def)
qed

end
