(* ===== verification/Form_Spec.thy ===== *)
theory Form_Spec
  imports Script
begin

text \<open>
  The abstract contract of the form submission flow (spec, section 4.5), and its
  relation to the handler \<open>handle_form_submit\<close> of lines 76-95. The spec's
  \<open>Validating\<close> state runs four checks in a fixed order: name, phone, email, date.
  The first check that fails rejects the submission, with that check's message
  alone. If every check passes, the record is accepted, stored and displayed.
  Following the spec, the date resolver falls through to the final error sentinel
  whenever it does not resolve the date. The code reaches the same verdict on every
  input except one: for ``next'' without ``monday'' it raises instead of rejecting.
\<close>

datatype field = Name_field | Phone_field | Email_field | Date_field

datatype verdict = Rejected field pystr | Accepted "(pystr \<times> pystr) list"

text \<open>The resolver as the spec describes it: every unresolved phrase yields the
  error sentinel of the final branch.\<close>

definition spec_parse_date :: "date \<Rightarrow> pystr \<Rightarrow> pystr" where
  "spec_parse_date today q = (case parse_date today q of None \<Rightarrow> err_unclear | Some r \<Rightarrow> r)"

definition form_checks :: "date \<Rightarrow> ui \<Rightarrow> (field \<times> bool) list" where
  "form_checks today u =
     [(Name_field, \<not> list_all py_isspace (name u)),
      (Phone_field, validate_phone (phone u)),
      (Email_field, validate_email (email u)),
      (Date_field, \<not> sublist ''Error'' (spec_parse_date today (date_query u)))]"

fun field_message :: "date \<Rightarrow> ui \<Rightarrow> field \<Rightarrow> pystr" where
  "field_message today u Name_field = form_error_name"
| "field_message today u Phone_field = form_error_phone"
| "field_message today u Email_field = form_error_email"
| "field_message today u Date_field = spec_parse_date today (date_query u)"

definition form_spec :: "date \<Rightarrow> ui \<Rightarrow> verdict" where
  "form_spec today u =
     (case find (\<lambda>(f, ok). \<not> ok) (form_checks today u) of
        Some (f, ok) \<Rightarrow> Rejected f (field_message today u f)
      | None \<Rightarrow> Accepted (form_record (name u) (phone u) (email u) (spec_parse_date today (date_query u))))"

text \<open>How a verdict shows on the page and in the session: one error message, or
  the stored record with the confirmation.\<close>

fun apply_verdict :: "session \<Rightarrow> verdict \<Rightarrow> run_result" where
  "apply_verdict s (Rejected f m) = (s, [Page_error m], Completed)"
| "apply_verdict s (Accepted r) =
     (s\<lparr>form_data := Some r\<rparr>, [Success success_msg, Write ''Your Details:'', Json r], Completed)"

lemma form_spec_eq:
  "form_spec today u =
     (if list_all py_isspace (name u) then Rejected Name_field form_error_name
      else if \<not> validate_phone (phone u) then Rejected Phone_field form_error_phone
      else if \<not> validate_email (email u) then Rejected Email_field form_error_email
      else if sublist ''Error'' (spec_parse_date today (date_query u))
      then Rejected Date_field (spec_parse_date today (date_query u))
      else Accepted (form_record (name u) (phone u) (email u) (spec_parse_date today (date_query u))))"
  by (simp add: form_spec_def form_checks_def)

lemma err_unclear_Error: "sublist ''Error'' err_unclear"
  by (simp add: err_unclear_def py_simps)

subsection \<open>Refinement\<close>

text \<open>C6: the handler implements the spec's verdict, with one exception. When the
  resolver returns \<open>None\<close> (``next'' without ``monday'') and name, phone and email
  pass, the spec rejects the date with the error sentinel, but the code raises
  \<open>TypeError\<close> and writes nothing. On every other input, the page elements, the
  stored record and the outcome are exactly those of the spec's verdict.\<close>

theorem handle_form_submit_refines:
  "handle_form_submit today u s =
     (if parse_date today (date_query u) = None \<and> form_spec today u = Rejected Date_field err_unclear
      then (s, [], Raised none_not_iterable)
      else apply_verdict s (form_spec today u))"
  by (cases "parse_date today (date_query u)")
     (auto simp: handle_form_submit_def form_spec_eq spec_parse_date_def py_strip_Nil_iff
        err_unclear_Error Let_def)

end
