(* ===== verification/Spec2Isabelle.thy ===== *)
theory Spec2Isabelle
  imports Runtime Form_Spec
begin

text \<open>
  \<^bold>\<open>A verification development of \<open>src/qachat.py\<close>.\<close>

  The program is a Streamlit page in one Python file. It has six parts.
  \<^item> An \<^emph>\<open>intent router\<close> (line 67). It sends a question that contains
    ``call me'' or ``book an appointment'', in any case, to a contact form. Every
    other question goes to the chat.
  \<^item> A \<^emph>\<open>chat relay\<close>. The module-level set-up of the Gemini client (lines
    9-17) and \<open>get_gemini_response\<close> (lines 19-24) forward the question to the
    hosted model as a stream. On any failure they return the fallback list
    \<open>[{"text": ...}]\<close>.
  \<^item> A \<^emph>\<open>date resolver\<close>, \<open>parse_date\<close> (lines 27-41). It maps ``next
    monday'', ``tomorrow'' and ``today'' to a \<open>%Y-%m-%d\<close> string relative to
    \<open>datetime.now()\<close>, and everything else to an error message.
  \<^item> Two \<^emph>\<open>field validators\<close>, \<open>validate_email\<close> and \<open>validate_phone\<close>
    (lines 44-49), which call \<open>re.match\<close>.
  \<^item> The \<^emph>\<open>script body\<close> (lines 52-108). It initialises the session state,
    and on ``Ask the question'' either shows the form and its handler
    (lines 68-95) or runs a chat turn (lines 96-104). It always ends by displaying
    the transcript.
  \<^item> The \<^emph>\<open>Streamlit runtime\<close>. It reruns the whole script on every
    interaction and keeps \<open>st.session_state\<close> between runs.

  \<^bold>\<open>Theories and how they correspond to the code.\<close>
  \<^descr>[\<open>Prelude\<close>] The shared collections \<open>py_simps\<close> and \<open>cal_simps\<close>, plus list
    and substring lemmas, with \<open>sublist\<close> standing for Python's \<open>in\<close> on strings.
  \<^descr>[\<open>Py_Str\<close>] The \<open>str\<close> methods the script calls: \<open>lower\<close>, \<open>strip\<close>
    (with \<open>isspace\<close>), and the character classes of \<open>re\<close>. Each is defined
    over Latin-1 as CPython defines it.
  \<^descr>[\<open>Router\<close>] \<open>route\<close> is the test of line 67, and \<open>intent\<close> names its
    two outcomes.
  \<^descr>[\<open>Regex\<close>] The pattern syntax the validators use, as the datatype
    \<open>rx\<close>. It covers literals, classes with \<open>\w\<close> and \<open>\d\<close>, sequence and bounded
    repetition.
    \<^item> \<open>lang\<close> gives its language.
    \<^item> \<open>rmatch\<close> is an executable Brzozowski-derivative matcher.
    \<^item> \<open>re_match_full\<close> is \<open>re.match\<close> of a pattern anchored by \<open>^\<close> and
      \<open>$\<close>, where \<open>$\<close> also matches before one final newline.
  \<^descr>[\<open>Validators\<close>] \<open>phone_rx\<close> and \<open>email_rx\<close> transcribe the two
    patterns. \<open>validate_phone\<close> and \<open>validate_email\<close> are the functions of lines
    44-49.
  \<^descr>[\<open>Calendar\<close>] The part of Python's \<open>datetime\<close> that \<open>parse_date\<close> uses.
    \<^item> The \<open>date\<close> record.
    \<^item> \<open>toordinal\<close> and \<open>weekday\<close>, using CPython's \<open>_ymd2ord\<close>
      formulas.
    \<^item> \<open>add_days\<close>, which adds a \<open>timedelta\<close> of whole days by stepping
      \<open>next_day\<close>. It is \<open>None\<close> (\<open>OverflowError\<close>) past 9999-12-31.
    \<^item> \<open>strftime_ymd\<close>, with glibc's unpadded \<open>%Y\<close>.
  \<^descr>[\<open>Date_Parse\<close>] \<open>parse_date\<close>, with the current date as a parameter.
    \<^item> Python's implicit \<open>return None\<close> is the option value \<open>None\<close>.
    \<^item> \<open>days_ahead_monday\<close> is the expression \<open>(0 - weekday + 7) % 7 or 7\<close>.
    \<^item> \<open>shifted_date\<close> is the \<open>try\<close> block with its \<open>except\<close>.
  \<^descr>[\<open>Relay\<close>] The set-up outcome \<open>init_chat\<close>, and \<open>get_gemini_response\<close>
    over an environment function \<open>gemini_send\<close> that stands for the hosted model.
    \<^item> A stream is the chunks it yields, plus the exception, if any, that
      ends the iteration.
    \<^item> Chunks are told apart by \<open>hasattr(chunk, "text")\<close>, which makes the
      fallback \<open>dict\<close> a chunk without text.
  \<^descr>[\<open>Script\<close>] One execution of the script: \<open>run_script\<close>.
    \<^item> It uses \<open>init_session\<close>, \<open>handle_input\<close>,
      \<open>handle_form_submit\<close>, \<open>handle_chat_turn\<close> with its loop
      \<open>relay_chunks\<close>, and \<open>show_history\<close>.
    \<^item> Its state is the \<open>session\<close> record, standing for
      \<open>st.session_state\<close>.
    \<^item> The widget values are the \<open>ui\<close> record. The outside world is the
      \<open>env\<close> record: whether the set-up succeeds, the model, and \<open>now\<close>.
    \<^item> A run returns the new session, the page \<open>element\<close>s it wrote, and
      whether it completed or raised. An exception keeps the mutations made before
      it, as Python does.
  \<^descr>[\<open>Form_Spec\<close>] The spec's contract for the form flow (section 4.5).
    \<^item> \<open>form_spec\<close> returns a \<open>verdict\<close>: the first failing check among
      name, phone, email and date rejects, otherwise the record is accepted.
    \<^item> \<open>apply_verdict\<close> is how a verdict shows on the page and in the
      session.
  \<^descr>[\<open>Runtime\<close>] The rerun semantics.
    \<^item> An \<open>event\<close> is a click of the button, a form submission, or an
      edit of the text.
    \<^item> \<open>ui_of\<close> gives the widget values of the rerun an event triggers.
      \<open>st.button\<close> is true only in the rerun of its own click, and
      \<open>st.form_submit_button\<close> only in the rerun of its form's submission.
    \<^item> \<open>app_step\<close> is one rerun and \<open>app_run\<close> a sequence of them.
    \<^item> \<open>reachable\<close> is the inductive set of states that can arise from
      the first page load.

  \<^bold>\<open>What is proved.\<close>
  \<^item> \<^emph>\<open>Runtime\<close>.
    \<^item> The form's handler is unreachable: no interaction shows the
      success message, and no reachable state stores form data.
    \<^item> The transcript after any sequence of interactions is the
      concatenation of the chat turns' entries in order.
    \<^item> Every reachable transcript is a list of well-formed turns.
    \<^item> A failing client set-up is reported again in every rerun.
  \<^item> \<^emph>\<open>Form_Spec\<close>. The handler refines the spec's verdict on every
    input, except an unresolved ``next'' date, where it raises instead.
  \<^item> \<^emph>\<open>Script\<close>.
    \<^item> The form handler's behaviour on every branch: success exactly when
      all four checks pass, the record it stores, and the \<open>TypeError\<close> of a
      \<open>None\<close> date.
    \<^item> A chat turn's transcript entries, including when the relay fails
      and when the stream raises part-way.
    \<^item> Every run uses a fresh model history.
  \<^item> \<^emph>\<open>Validators\<close>. Each regex validator is equivalent to a direct
    character-level checker, for the email the split at the first \<open>@\<close> and the
    last \<open>.\<close>. The equivalences include a string followed by one newline, so
    the anchored patterns accept a trailing newline.
  \<^item> \<^emph>\<open>Regex\<close>. The derivative matcher decides the pattern language, and
    the anchors add exactly one optional final newline.
  \<^item> \<^emph>\<open>Router\<close>. The form is chosen exactly for inputs containing a
    substring whose lowercase form is one of the two phrases.
  \<^item> \<^emph>\<open>Date_Parse\<close> and \<^emph>\<open>Calendar\<close>.
    \<^item> ``next monday'' is a Monday 1 to 7 days ahead, and ``tomorrow''
      the next day.
    \<^item> \<open>None\<close> is returned exactly for ``next'' without ``monday''.
    \<^item> The caller's test \<open>"Error" in date\<close> recognises exactly the error
      messages.
    \<^item> Day stepping refines ordinal arithmetic.
    \<^item> The rendering has the shape \<open>YYYY-MM-DD\<close> exactly from year 1000 on,
      because \<open>%Y\<close> is not padded.

  \<^bold>\<open>Bounds and fuel.\<close> No definition needs fuel.
  \<^item> Every recursion is structural: \<open>add_days\<close> on its day count, the matcher
    on the string, the relay loop on the chunk list.
  \<^item> \<open>add_days\<close> is total. It steps at most 7 days from \<open>parse_date\<close>, and
    its theorem covers every count.
  \<^item> Dates are bounded by \<open>max_year\<close> = 9999 and \<open>max_ordinal\<close> = 3652059,
    as in CPython.

  \<^bold>\<open>Not modelled.\<close>
  \<^item> Code points above U+00FF. Every string is a list of Latin-1
    characters, which covers the ASCII of every pattern and example.
  \<^item> The time of day of \<open>datetime.now()\<close>, which is never printed.
  \<^item> \<open>st.set_page_config\<close> (line 52) and styling. The model follows
    Streamlit releases that accept \<open>set_page_config\<close> after other commands.
    Releases that require it first would raise at line 52 after the \<open>st.error\<close>
    of a failed set-up; the set-up-failure results assume the newer behaviour.
  \<^item> The Python version's \<open>%Y\<close>. \<open>strftime_ymd\<close> follows glibc's unpadded
    year, as CPython 3.11 prints it (\<open>999-01-01\<close>). Later CPython releases may pad
    the year to four digits. The difference shows only for years before 1000.
  \<^item> \<open>load_dotenv\<close> and \<open>os.getenv\<close>, which are I/O. Only their outcome
    matters, and it is the flag \<open>api_ok\<close>.
  \<^item> The chat object's own history updates inside \<open>send_message\<close>. Each
    run discards that object, which is the point of the history theorem.
\<close>

end
